theory Spec2Isabelle
  imports Complex_Main "HOL-Library.AList" "HOL-Library.Char_ord" "HOL-Library.List_Lexorder"
begin

section \<open>JavaScript string helpers used by the download script\<close>

text \<open>
  Strings are lists of 8-bit characters. Header values and file names reach the script as
  Latin-1 text, so one \<^typ>\<open>char\<close> stands for one JavaScript code unit.
\<close>

definition digit_char :: "nat \<Rightarrow> char" where
  "digit_char d = ''0123456789'' ! d"

text \<open>\<^verbatim>\<open>String(n)\<close> for a non-negative integer: its decimal digits.\<close>

fun String_nat :: "nat \<Rightarrow> string" where
  "String_nat n =
     (if n < 10 then [digit_char n] else String_nat (n div 10) @ [digit_char (n mod 10)])"

declare String_nat.simps [simp del]

text \<open>\<^verbatim>\<open>s.padStart(n, c)\<close> with a one-character pad string.\<close>

definition padStart :: "nat \<Rightarrow> char \<Rightarrow> string \<Rightarrow> string" where
  "padStart n c s = replicate (n - length s) c @ s"

text \<open>\<^verbatim>\<open>xs.join(sep)\<close>.\<close>

fun join :: "string \<Rightarrow> string list \<Rightarrow> string" where
  "join sep [] = []"
| "join sep [x] = x"
| "join sep (x # y # ys) = x @ sep @ join sep (y # ys)"

text \<open>
  \<^verbatim>\<open>s.trim()\<close>: the white space and line terminators of ECMAScript that fit in one byte
  (TAB, LF, VT, FF, CR, SP, NBSP).
\<close>

definition js_space :: "char \<Rightarrow> bool" where
  "js_space c = (of_char c \<in> {9, 10, 11, 12, 13, 32, 160 :: nat})"

definition trim :: "string \<Rightarrow> string" where
  "trim s = rev (dropWhile js_space (rev (dropWhile js_space s)))"

text \<open>\<^verbatim>\<open>s.split(';')[0]\<close>: the text before the first semicolon (all of it when there is none).\<close>

definition split_first :: "char \<Rightarrow> string \<Rightarrow> string" where
  "split_first sep s = takeWhile (\<lambda>c. c \<noteq> sep) s"

text \<open>\<^verbatim>\<open>s.replace(/pat/g, rep)\<close> for a literal, non-empty pattern.\<close>

fun replaceAll :: "string \<Rightarrow> string \<Rightarrow> string \<Rightarrow> string" where
  "replaceAll pat rep [] = []"
| "replaceAll pat rep (c # cs) =
     (if pat \<noteq> [] \<and> take (length pat) (c # cs) = pat
      then rep @ replaceAll pat rep (drop (length pat) (c # cs))
      else c # replaceAll pat rep cs)"

text \<open>\<^verbatim>\<open>s.includes(pat)\<close>: \<open>pat\<close> occurs somewhere in \<open>s\<close>.\<close>

fun str_includes :: "string \<Rightarrow> string \<Rightarrow> bool" where
  "str_includes [] pat = (pat = [])"
| "str_includes (c # cs) pat = (take (length pat) (c # cs) = pat \<or> str_includes cs pat)"

definition startsWith :: "string \<Rightarrow> string \<Rightarrow> bool" where
  "startsWith s pat = (take (length pat) s = pat)"

definition endsWith :: "string \<Rightarrow> string \<Rightarrow> bool" where
  "endsWith s pat = (drop (length s - length pat) s = pat \<and> length pat \<le> length s)"

definition is_digit :: "char \<Rightarrow> bool" where
  "is_digit c = (c \<in> set ''0123456789'')"

definition digit_val :: "char \<Rightarrow> nat" where
  "digit_val c = of_char c - 48"

text \<open>\<^verbatim>\<open>parseInt(s, 10)\<close> on a string of decimal digits.\<close>

definition parseInt_digits :: "string \<Rightarrow> nat" where
  "parseInt_digits s = foldl (\<lambda>a c. 10 * a + digit_val c) 0 s"

section \<open>Naming\<close>

text \<open>
  \<^verbatim>\<open>generateHeadings\<close>: the two-digit heading codes 01 to 99 (the chapter argument is unused).
\<close>

definition generateHeadings :: "nat \<Rightarrow> string list" where
  "generateHeadings chapter = map (\<lambda>heading. padStart 2 (CHR ''0'') (String_nat heading)) [1..<100]"

text \<open>The file name built in the grid loop of \<^verbatim>\<open>main\<close>.\<close>

definition grid_filename :: "string \<Rightarrow> nat \<Rightarrow> string \<Rightarrow> string" where
  "grid_filename edition chapter heading =
     padStart 2 (CHR ''0'') (String_nat chapter) @ heading @ ''_'' @ edition @ ''e.pdf''"

definition BASE_URL :: string where
  "BASE_URL = ''https://www.wcoomd.org/-/media/wco/public/global/pdf/topics/nomenclature/instruments-and-tools/hs-nomenclature-{EDITION}/{EDITION}/{CHAPTER}{HEADING}_{EDITION}e.pdf''"

definition BASE_URL_ADDITIONAL :: string where
  "BASE_URL_ADDITIONAL = ''https://www.wcoomd.org/-/media/wco/public/global/pdf/topics/nomenclature/instruments-and-tools/hs-nomenclature-{EDITION}/{EDITION}/{FILENAME}''"

definition buildUrl :: "string \<Rightarrow> nat \<Rightarrow> string \<Rightarrow> string" where
  "buildUrl edition chapter heading =
     replaceAll ''{HEADING}'' heading
       (replaceAll ''{CHAPTER}'' (padStart 2 (CHR ''0'') (String_nat chapter))
         (replaceAll ''{EDITION}'' edition BASE_URL))"

definition buildAdditionalUrl :: "string \<Rightarrow> string \<Rightarrow> string" where
  "buildAdditionalUrl edition filename =
     replaceAll ''{FILENAME}'' filename (replaceAll ''{EDITION}'' edition BASE_URL_ADDITIONAL)"

section \<open>Session cookies\<close>

text \<open>
  \<^verbatim>\<open>extractCookies\<close>: the argument is the response's \<^verbatim>\<open>set-cookie\<close> header list
  (empty when the header is absent), the state is the module-level \<^verbatim>\<open>cookieJar\<close>.
\<close>

definition cookie_pairs :: "string list \<Rightarrow> string list" where
  "cookie_pairs setCookieHeaders =
     filter (\<lambda>cookie. cookie \<noteq> []) (map (\<lambda>h. trim (split_first (CHR '';'') h)) setCookieHeaders)"

definition extractCookies :: "string list \<Rightarrow> string \<Rightarrow> string" where
  "extractCookies setCookieHeaders cookieJar =
     (let cookies = cookie_pairs setCookieHeaders
      in if length cookies > 0 then join ''; '' cookies else cookieJar)"

text \<open>The format the specification gives for a coordinate document: two digits each.\<close>

definition spec_filename :: "string \<Rightarrow> nat \<Rightarrow> nat \<Rightarrow> string" where
  "spec_filename edition chapter heading =
     [digit_char (chapter div 10), digit_char (chapter mod 10),
      digit_char (heading div 10), digit_char (heading mod 10)] @ ''_'' @ edition @ ''e.pdf''"

section \<open>The outside world: origin server, clock, file system\<close>

text \<open>
  The script talks to one origin server, sleeps, and reads and writes files below its output
  directory. A run is modelled by explicit state passing over a \<open>world\<close>; every request
  and every sleep is appended to \<open>trace\<close>. The server and \<^verbatim>\<open>Math.random()\<close> are oracles
  that may answer differently at each moment (the moment is the length of the trace so far).
  Request headers decide nothing in the script and are left out, the cookie jar excepted.
\<close>

datatype meth = GET | HEAD

record response =
  statusCode :: nat
  location :: "string option"
  setCookie :: "string list"
  contentLength :: "nat option"
  body :: string

text \<open>
  \<open>contentLength\<close> is the numeric value of the \<^verbatim>\<open>Content-Length\<close> header (the HTTP parser of
  the runtime refuses a value that is not a digit string), \<open>None\<close> when the header is absent.
  \<open>NetError\<close> is the request's \<^verbatim>\<open>error\<close> event, \<open>Timeout\<close> a request that is never answered.
\<close>

datatype reply = Resp response | NetError | Timeout

datatype event = Request meth string | Sleep real

record env =
  server :: "nat \<Rightarrow> meth \<Rightarrow> string \<Rightarrow> reply"
  random :: "nat \<Rightarrow> real"
  url_protocol :: "string \<Rightarrow> string"
  url_host :: "string \<Rightarrow> string"
  url_pathname :: "string \<Rightarrow> string"
  processUrl :: "string \<Rightarrow> string option"

text \<open>
  \<open>url_protocol\<close>, \<open>url_host\<close> and \<open>url_pathname\<close> stand for the fields of the runtime's
  \<^verbatim>\<open>new URL(s)\<close>, \<open>processUrl\<close> for \<^verbatim>\<open>processUrl(href, WCO_BASE_URL)\<close> of the shared
  utilities (\<open>None\<close> is its \<^verbatim>\<open>null\<close>); \<open>random t\<close> is the value \<^verbatim>\<open>Math.random()\<close> returns at
  moment \<open>t\<close>, a number in \<open>[0, 1)\<close>.
\<close>

record world =
  cookieJar :: string
  files :: "(string \<times> string) list"
  trace :: "event list"

definition emit :: "event \<Rightarrow> world \<Rightarrow> world" where
  "emit e w = w\<lparr>trace := trace w @ [e]\<rparr>"

definition now :: "world \<Rightarrow> nat" where
  "now w = length (trace w)"

text \<open>The file system is an association list from path to content.\<close>

definition existsSync :: "(string \<times> string) list \<Rightarrow> string \<Rightarrow> bool" where
  "existsSync fs p = (map_of fs p \<noteq> None)"

definition getLocalFileSize :: "(string \<times> string) list \<Rightarrow> string \<Rightarrow> nat option" where
  "getLocalFileSize fs p = map_option length (map_of fs p)"

definition writeFile :: "string \<Rightarrow> string \<Rightarrow> world \<Rightarrow> world" where
  "writeFile p content w = w\<lparr>files := AList.update p content (files w)\<rparr>"

definition unlinkSync :: "string \<Rightarrow> world \<Rightarrow> world" where
  "unlinkSync p w = w\<lparr>files := AList.delete p (files w)\<rparr>"

text \<open>
  \<^verbatim>\<open>createWriteStream(outputPath)\<close> opens the file for writing: it is created, or emptied when
  it exists.
\<close>

definition createWriteStream :: "string \<Rightarrow> world \<Rightarrow> world" where
  "createWriteStream p w = writeFile p [] w"

text \<open>
  The clean-up the script repeats after a failed request: delete the file when it exists and
  holds fewer than 100 bytes.
\<close>

definition unlink_if_small :: "string \<Rightarrow> world \<Rightarrow> world" where
  "unlink_if_small p w =
     (case getLocalFileSize (files w) p of
        None \<Rightarrow> w
      | Some sz \<Rightarrow> if sz = 0 \<or> sz < 100 then unlinkSync p w else w)"

definition unlink_if_exists :: "string \<Rightarrow> world \<Rightarrow> world" where
  "unlink_if_exists p w = (if existsSync (files w) p then unlinkSync p w else w)"

definition path_join :: "string \<Rightarrow> string \<Rightarrow> string" where
  "path_join dir name = dir @ ''/'' @ name"

text \<open>\<^verbatim>\<open>fs.readdir(dir)\<close>: the names directly below \<open>dir\<close>.\<close>

definition readdir :: "(string \<times> string) list \<Rightarrow> string \<Rightarrow> string list" where
  "readdir fs dir =
     filter (\<lambda>name. CHR ''/'' \<notin> set name)
       (map (\<lambda>p. drop (length dir + 1) p)
         (filter (\<lambda>p. startsWith p (dir @ ''/'')) (map fst fs)))"

section \<open>Pacing\<close>

text \<open>\<^verbatim>\<open>getRandomDelay\<close>, with the value of \<^verbatim>\<open>Math.random()\<close> as third argument.\<close>

definition getRandomDelay :: "real \<Rightarrow> real \<Rightarrow> real \<Rightarrow> real" where
  "getRandomDelay baseDelay variation r = baseDelay + of_int \<lfloor>r * variation\<rfloor>"

definition sleep :: "real \<Rightarrow> world \<Rightarrow> world" where
  "sleep ms w = emit (Sleep ms) w"

section \<open>Redirect targets\<close>

text \<open>The text before the first occurrence of \<open>sep\<close>: \<^verbatim>\<open>s.split(sep)[0]\<close>.\<close>

fun split_head :: "string \<Rightarrow> string \<Rightarrow> string" where
  "split_head sep [] = []"
| "split_head sep (c # cs) =
     (if take (length sep) (c # cs) = sep then [] else c # split_head sep cs)"

text \<open>\<^verbatim>\<open>p.substring(0, p.lastIndexOf('/'))\<close>; empty when \<open>p\<close> has no slash.\<close>

definition basePath :: "string \<Rightarrow> string" where
  "basePath p = rev (tl (dropWhile (\<lambda>c. c \<noteq> CHR ''/'') (rev p)))"

definition is_redirect :: "nat \<Rightarrow> bool" where
  "is_redirect st = (st = 301 \<or> st = 302 \<or> st = 303 \<or> st = 307 \<or> st = 308)"

definition resolveRedirect :: "env \<Rightarrow> string \<Rightarrow> string \<Rightarrow> string" where
  "resolveRedirect E currentUrl loc =
     (if startsWith loc ''http://'' \<or> startsWith loc ''https://'' then loc
      else if startsWith loc ''//'' then split_head ''://'' currentUrl @ ''://'' @ drop 2 loc
      else if startsWith loc ''/'' then
        url_protocol E currentUrl @ ''//'' @ url_host E currentUrl @ loc
      else
        url_protocol E currentUrl @ ''//'' @ url_host E currentUrl
          @ basePath (url_pathname E currentUrl) @ ''/'' @ loc)"

text \<open>A missing or empty \<^verbatim>\<open>Location\<close> header is falsy.\<close>

definition location_of :: "response \<Rightarrow> string option" where
  "location_of res = (case location res of None \<Rightarrow> None | Some l \<Rightarrow> if l = [] then None else Some l)"

section \<open>The direct HTTP fetcher: \<^verbatim>\<open>downloadFile\<close>\<close>

record DownloadResult =
  success :: bool
  status :: "nat option"
  error :: "string option"
  size_bytes :: "nat option"

text \<open>
  How the promise of \<^verbatim>\<open>downloadFile\<close> ends: resolved with a result, rejected (the request's
  error after the last attempt), or never settled (the GET sets no timeout).
\<close>

datatype settled = Resolved DownloadResult | Rejected | Hung

definition failure :: "nat \<Rightarrow> string \<Rightarrow> DownloadResult" where
  "failure st msg = \<lparr>success = False, status = Some st, error = Some msg, size_bytes = None\<rparr>"

text \<open>
  \<^verbatim>\<open>attemptDownload(attempt, currentUrl, redirectCount, previousUrl)\<close>, the closure inside
  \<^verbatim>\<open>downloadFile\<close>. \<open>previousUrl\<close> only feeds the Referer header and is left out. The
  retry timer \<^verbatim>\<open>setTimeout(..., 1000 * attempt)\<close> is a sleep.
\<close>

function attemptDownload ::
  "env \<Rightarrow> string \<Rightarrow> int \<Rightarrow> nat \<Rightarrow> nat \<Rightarrow> string \<Rightarrow> nat \<Rightarrow> world \<Rightarrow> settled \<times> world" where
  "attemptDownload E outputPath retries maxRedirects attempt currentUrl redirectCount w =
     (if redirectCount \<ge> maxRedirects then (Resolved (failure 0 ''Too many redirects''), w)
      else
        let w1 = emit (Request GET currentUrl) (createWriteStream outputPath w) in
        case server E (now w) GET currentUrl of
          Timeout \<Rightarrow> (Hung, w1)
        | NetError \<Rightarrow>
            (let w2 = (if int attempt \<ge> retries then unlink_if_small outputPath w1 else w1) in
             if int attempt < retries
             then attemptDownload E outputPath retries maxRedirects (attempt + 1) currentUrl
                    redirectCount (sleep (1000 * real attempt) w2)
             else (Rejected, w2))
        | Resp res \<Rightarrow>
            (let w2 = w1\<lparr>cookieJar := extractCookies (setCookie res) (cookieJar w1)\<rparr> in
             if is_redirect (statusCode res) then
               (case location_of res of
                  None \<Rightarrow>
                    (Resolved (failure (statusCode res)
                       (''HTTP '' @ String_nat (statusCode res) @ '' - No redirect location'')),
                     unlink_if_exists outputPath w2)
                | Some loc \<Rightarrow>
                    if str_includes loc ''/error'' \<or> str_includes loc ''404''
                    then (Resolved (failure 404 ''Not Found (redirected to error page)''),
                          unlink_if_small outputPath w2)
                    else attemptDownload E outputPath retries maxRedirects attempt
                           (resolveRedirect E currentUrl loc) (redirectCount + 1) w2)
             else if statusCode res = 404 then
               (Resolved (failure 404 ''Not Found''), unlink_if_small outputPath w2)
             else if statusCode res \<noteq> 200 then
               (let w3 = (if statusCode res \<ge> 500 \<and> int attempt \<ge> retries
                          then unlink_if_small outputPath w2 else w2) in
                if int attempt < retries
                then attemptDownload E outputPath retries maxRedirects (attempt + 1) currentUrl
                       redirectCount (sleep (1000 * real attempt) w3)
                else (Resolved (failure (statusCode res) (''HTTP '' @ String_nat (statusCode res))), w3))
             else
               (let w3 = writeFile outputPath (body res) w2 in
                (Resolved \<lparr>success = True, status = None, error = None,
                            size_bytes = getLocalFileSize (files w3) outputPath\<rparr>, w3))))"
  by pat_completeness auto
termination
  by (relation "measures [\<lambda>(E, p, retries, maxR, attempt, u, rc, w). nat (retries - int attempt),
                          \<lambda>(E, p, retries, maxR, attempt, u, rc, w). maxR - rc]") auto

declare attemptDownload.simps [simp del]

definition downloadFile :: "env \<Rightarrow> string \<Rightarrow> string \<Rightarrow> int \<Rightarrow> nat \<Rightarrow> world \<Rightarrow> settled \<times> world" where
  "downloadFile E url outputPath retries maxRedirects w =
     attemptDownload E outputPath retries maxRedirects 1 url 0 w"

text \<open>The world after a response has been observed: request sent, stub file made, cookies taken.\<close>

abbreviation observed :: "string \<Rightarrow> string \<Rightarrow> response \<Rightarrow> world \<Rightarrow> world" where
  "observed p u res wd \<equiv>
     (emit (Request GET u) (createWriteStream p wd))
       \<lparr>cookieJar := extractCookies (setCookie res) (cookieJar wd)\<rparr>"

text \<open>
  The events of a download that is answered the same way at every attempt, from attempt
  \<open>a\<close> on with \<open>n\<close> retries configured: a GET, then for every further attempt a sleep of
  1000 ms times the number of the attempt just made and the next GET.
\<close>

definition retry_trace :: "string \<Rightarrow> nat \<Rightarrow> int \<Rightarrow> event list" where
  "retry_trace u a n =
     concat (map (\<lambda>k. [Request GET u, Sleep (1000 * real k)]) [a..<nat n]) @ [Request GET u]"

section \<open>The change detector: \<^verbatim>\<open>checkFileChanged\<close>\<close>

function checkFile :: "env \<Rightarrow> string \<Rightarrow> nat \<Rightarrow> string \<Rightarrow> nat \<Rightarrow> world \<Rightarrow> bool \<times> world" where
  "checkFile E localPath maxRedirects currentUrl redirectCount w =
     (if redirectCount \<ge> maxRedirects then (True, w)
      else
        let w1 = emit (Request HEAD currentUrl) w in
        case server E (now w) HEAD currentUrl of
          NetError \<Rightarrow> (True, w1)
        | Timeout \<Rightarrow> (True, w1)
        | Resp res \<Rightarrow>
            if is_redirect (statusCode res) then
              (case location_of res of
                 None \<Rightarrow> (True, w1)
               | Some loc \<Rightarrow>
                   checkFile E localPath maxRedirects (resolveRedirect E currentUrl loc)
                     (redirectCount + 1) w1)
            else if statusCode res = 404 then (True, w1)
            else if statusCode res \<noteq> 200 then (True, w1)
            else
              (let remoteSize = (case contentLength res of None \<Rightarrow> 0 | Some n \<Rightarrow> n);
                   localSize = getLocalFileSize (files w1) localPath
               in (localSize = None \<or> localSize \<noteq> Some remoteSize, w1)))"
  by pat_completeness auto
termination
  by (relation "measure (\<lambda>(E, p, maxR, u, rc, w). maxR - rc)") auto

declare checkFile.simps [simp del]

definition checkFileChanged :: "env \<Rightarrow> string \<Rightarrow> string \<Rightarrow> nat \<Rightarrow> world \<Rightarrow> bool \<times> world" where
  "checkFileChanged E url localPath maxRedirects w = checkFile E localPath maxRedirects url 0 w"

section \<open>The session warm-up: \<^verbatim>\<open>establishSession\<close>\<close>

definition mainPageUrl :: "string \<Rightarrow> string" where
  "mainPageUrl edition =
     ''https://www.wcoomd.org/en/topics/nomenclature/instrument-and-tools/hs-nomenclature-''
       @ edition @ ''-edition/hs-nomenclature-'' @ edition @ ''-edition.aspx''"

definition establishSession :: "env \<Rightarrow> string \<Rightarrow> world \<Rightarrow> world" where
  "establishSession E edition w =
     (let w1 = emit (Request GET (mainPageUrl edition)) w in
      case server E (now w) GET (mainPageUrl edition) of
        Resp res \<Rightarrow> w1\<lparr>cookieJar := extractCookies (setCookie res) (cookieJar w1)\<rparr>
      | NetError \<Rightarrow> w1
      | Timeout \<Rightarrow> w1)"

section \<open>The batch orchestrator: \<^verbatim>\<open>main\<close> of the HTTP script\<close>

text \<open>
  \<open>chapters\<close> holds the result of \<^verbatim>\<open>parseChapters(config.chapters)\<close>; \<open>delay\<close>,
  \<open>delayVariation\<close> and \<open>retries\<close> are the integers \<^verbatim>\<open>parseInt\<close> returned.
\<close>

record config =
  edition :: string
  outputDir :: string
  chapters :: "nat list"
  delay :: int
  delayVariation :: int
  retries :: int
  resume :: bool
  dryRun :: bool
  checkExisting :: bool
  skipExisting :: bool

record run =
  wld :: world
  totalAttempted :: nat
  totalDownloaded :: nat
  totalFailed :: nat
  totalSkipped :: nat

text \<open>
  A loop body either goes on (\<open>Ok\<close>), ends the process (\<open>Exit code\<close>, the script's
  \<^verbatim>\<open>process.exit(code)\<close>), or waits for ever on a request (\<open>Hang\<close>). For \<^verbatim>\<open>main\<close> itself
  \<open>Ok\<close> is the normal return after the summary.
\<close>

datatype outcome = Ok run | Exit nat run | Hang run

definition pace :: "env \<Rightarrow> config \<Rightarrow> run \<Rightarrow> run" where
  "pace E cfg st =
     (if delay cfg > 0
      then st\<lparr>wld := sleep (getRandomDelay (real_of_int (delay cfg)) (real_of_int (delayVariation cfg))
                           (random E (now (wld st)))) (wld st)\<rparr>
      else st)"

definition head_pause :: "env \<Rightarrow> config \<Rightarrow> run \<Rightarrow> run" where
  "head_pause E cfg st =
     (if delay cfg > 0
      then st\<lparr>wld := sleep (getRandomDelay (real_of_int (delay cfg) / 2) (real_of_int (delayVariation cfg) / 2)
                           (random E (now (wld st)))) (wld st)\<rparr>
      else st)"

text \<open>
  The body shared, statement for statement, by the loop over the additional PDFs and by the
  loop over the headings of a chapter, in its two halves. First the checks that end the turn
  with \<^verbatim>\<open>continue\<close>: skip an existing file (\<^verbatim>\<open>--skip-existing\<close>), or ask the change
  detector (\<^verbatim>\<open>--check-existing\<close>) after a short pause.
\<close>

datatype decision = Skip run | Fetch run

definition should_fetch :: "env \<Rightarrow> config \<Rightarrow> string \<Rightarrow> string \<Rightarrow> run \<Rightarrow> decision" where
  "should_fetch E cfg url outputPath st =
     (if skipExisting cfg \<and> \<not> dryRun cfg \<and> existsSync (files (wld st)) outputPath
      then Skip (st\<lparr>totalSkipped := totalSkipped st + 1\<rparr>)
      else if checkExisting cfg \<and> \<not> dryRun cfg \<and> existsSync (files (wld st)) outputPath
      then
        (let stp = head_pause E cfg st;
             (hasChanged, w') = checkFileChanged E url outputPath 5 (wld stp)
         in if \<not> hasChanged
            then Skip (stp\<lparr>wld := w', totalSkipped := totalSkipped stp + 1\<rparr>)
            else Fetch (stp\<lparr>wld := w'\<rparr>))
      else Fetch st)"

text \<open>The run state a decision carries.\<close>

fun decided :: "decision \<Rightarrow> run" where
  "decided (Skip st) = st"
| "decided (Fetch st) = st"

text \<open>Then the download, the classification of its result, and the pause.\<close>

definition fetch_and_record :: "env \<Rightarrow> config \<Rightarrow> string \<Rightarrow> string \<Rightarrow> run \<Rightarrow> outcome" where
  "fetch_and_record E cfg url outputPath st =
     (if dryRun cfg then Ok (st\<lparr>totalDownloaded := totalDownloaded st + 1\<rparr>)
      else
        (case downloadFile E url outputPath (retries cfg) 5 (wld st) of
           (Hung, w') \<Rightarrow> Hang (st\<lparr>wld := w'\<rparr>)
         | (Rejected, w') \<Rightarrow>
             Ok (pace E cfg (st\<lparr>wld := w', totalFailed := totalFailed st + 1\<rparr>))
         | (Resolved result, w') \<Rightarrow>
             if success result
             then Ok (pace E cfg (st\<lparr>wld := w', totalDownloaded := totalDownloaded st + 1\<rparr>))
             else if status result = Some 404 then Exit 1 (st\<lparr>wld := w'\<rparr>)
             else Ok (pace E cfg (st\<lparr>wld := w', totalFailed := totalFailed st + 1\<rparr>))))"

definition process_file :: "env \<Rightarrow> config \<Rightarrow> string \<Rightarrow> string \<Rightarrow> run \<Rightarrow> outcome" where
  "process_file E cfg url filename st =
     (let outputPath = path_join (outputDir cfg) filename in
      case should_fetch E cfg url outputPath (st\<lparr>totalAttempted := totalAttempted st + 1\<rparr>) of
        Skip st' \<Rightarrow> Ok st'
      | Fetch st' \<Rightarrow> fetch_and_record E cfg url outputPath st')"

text \<open>The loop over the additional (mandatory) PDFs.\<close>

definition process_additional :: "env \<Rightarrow> config \<Rightarrow> string \<Rightarrow> run \<Rightarrow> outcome" where
  "process_additional E cfg pdfTemplate st =
     (let filename = replaceAll ''{EDITION}'' (edition cfg) pdfTemplate;
          url = buildAdditionalUrl (edition cfg) filename
      in process_file E cfg url filename st)"

fun additional_loop :: "env \<Rightarrow> config \<Rightarrow> string list \<Rightarrow> run \<Rightarrow> outcome" where
  "additional_loop E cfg [] st = Ok st"
| "additional_loop E cfg (pdfTemplate # rest) st =
     (case process_additional E cfg pdfTemplate st of
        Ok st' \<Rightarrow> additional_loop E cfg rest st'
      | Exit c st' \<Rightarrow> Exit c st'
      | Hang st' \<Rightarrow> Hang st')"

text \<open>The resume point: \<^verbatim>\<open>lastFile.match(/^(\d{2})(\d{2})_(\d{4})e\.pdf$/)\<close>.\<close>

definition match_coordinate :: "string \<Rightarrow> (nat \<times> nat) option" where
  "match_coordinate f =
     (if length f = 14 \<and> list_all is_digit (take 4 f) \<and> f ! 4 = CHR ''_''
         \<and> list_all is_digit (take 4 (drop 5 f)) \<and> drop 9 f = ''e.pdf''
      then Some (parseInt_digits (take 2 f), parseInt_digits (take 2 (drop 2 f)))
      else None)"

definition find_resume :: "config \<Rightarrow> world \<Rightarrow> (nat \<times> nat) option" where
  "find_resume cfg wd =
     (if resume cfg \<and> \<not> dryRun cfg then
        let fnames = readdir (files wd) (outputDir cfg) in
        if length fnames > 0 then
          let pdfFiles = sort (filter (\<lambda>f. endsWith f ''.pdf'') fnames) in
          if length pdfFiles > 0 then match_coordinate (last pdfFiles) else None
        else None
      else None)"

text \<open>The loop over the headings of one chapter, and the loop over the chapters.\<close>

definition process_heading :: "env \<Rightarrow> config \<Rightarrow> nat \<Rightarrow> string \<Rightarrow> run \<Rightarrow> outcome" where
  "process_heading E cfg chapter heading st =
     process_file E cfg (buildUrl (edition cfg) chapter heading)
       (grid_filename (edition cfg) chapter heading) st"

fun heading_loop ::
  "env \<Rightarrow> config \<Rightarrow> (nat \<times> nat) option \<Rightarrow> nat \<Rightarrow> string list \<Rightarrow> run \<Rightarrow> outcome" where
  "heading_loop E cfg resumeFrom chapter [] st = Ok st"
| "heading_loop E cfg resumeFrom chapter (heading # rest) st =
     (if (case resumeFrom of
            None \<Rightarrow> False
          | Some (rc, rh) \<Rightarrow> chapter = rc \<and> parseInt_digits heading \<le> rh)
      then heading_loop E cfg resumeFrom chapter rest st
      else
        (case process_heading E cfg chapter heading st of
           Ok st' \<Rightarrow> heading_loop E cfg resumeFrom chapter rest st'
         | Exit c st' \<Rightarrow> Exit c st'
         | Hang st' \<Rightarrow> Hang st'))"

fun chapter_loop ::
  "env \<Rightarrow> config \<Rightarrow> (nat \<times> nat) option \<Rightarrow> nat list \<Rightarrow> run \<Rightarrow> outcome" where
  "chapter_loop E cfg resumeFrom [] st = Ok st"
| "chapter_loop E cfg resumeFrom (chapter # rest) st =
     (if (case resumeFrom of None \<Rightarrow> False | Some (rc, rh) \<Rightarrow> chapter < rc)
      then chapter_loop E cfg resumeFrom rest st
      else
        (case heading_loop E cfg resumeFrom chapter (generateHeadings chapter) st of
           Ok st' \<Rightarrow> chapter_loop E cfg resumeFrom rest st'
         | Exit c st' \<Rightarrow> Exit c st'
         | Hang st' \<Rightarrow> Hang st'))"

text \<open>
  \<^verbatim>\<open>main\<close>. \<open>additionalPdfs\<close> is what \<^verbatim>\<open>loadAdditionalPdfs\<close> returned, \<open>w0\<close> the world at
  process start.
\<close>

definition start :: "world \<Rightarrow> run" where
  "start wd = \<lparr>wld = wd, totalAttempted = 0, totalDownloaded = 0, totalFailed = 0, totalSkipped = 0\<rparr>"

definition main :: "env \<Rightarrow> config \<Rightarrow> string list \<Rightarrow> world \<Rightarrow> outcome" where
  "main E cfg additionalPdfs w0 =
     (let w1 = (if \<not> dryRun cfg then establishSession E (edition cfg) w0 else w0) in
      case additional_loop E cfg additionalPdfs (start w1) of
        Ok st \<Rightarrow> chapter_loop E cfg (find_resume cfg (wld st)) (chapters cfg) st
      | Exit c st \<Rightarrow> Exit c st
      | Hang st \<Rightarrow> Hang st)"

section \<open>The browser-assisted script: \<^verbatim>\<open>downloadPDF\<close> and its download loop\<close>

text \<open>
  \<^verbatim>\<open>downloadPDF\<close> returns whether the PDF was saved. A rejected request promise and an
  exception are caught and give \<open>False\<close>; \<open>None\<close> is a request that is never answered.
\<close>

definition downloadPDF :: "env \<Rightarrow> string \<Rightarrow> string \<Rightarrow> world \<Rightarrow> bool option \<times> world" where
  "downloadPDF E url outputPath wd =
     (let w1 = emit (Request GET url) wd in
      case server E (now wd) GET url of
        Timeout \<Rightarrow> (None, w1)
      | NetError \<Rightarrow> (Some False, w1)
      | Resp res \<Rightarrow>
          if statusCode res = 404 then (Some False, w1)
          else if statusCode res = 403 \<or> statusCode res = 429 then (Some False, w1)
          else if statusCode res \<noteq> 200 then (Some False, w1)
          else
            let content = body res in
            if length content = 0 then (Some False, w1)
            else if length content < 4 \<or> take 4 content \<noteq> ''%PDF'' then (Some False, w1)
            else (Some True, writeFile outputPath content w1))"

record browser_config =
  b_outputDir :: string
  b_delay :: int
  b_dryRun :: bool

record browser_run =
  bw :: world
  downloaded :: nat
  failed :: nat
  skipped :: nat

definition basename :: "string \<Rightarrow> string" where
  "basename p = rev (takeWhile (\<lambda>c. c \<noteq> CHR ''/'') (rev p))"

text \<open>
  One turn of the download loop of the browser script; \<open>is_last\<close> is the test
  \<^verbatim>\<open>i < pdfLinks.length - 1\<close> negated. \<open>None\<close>: the request is never answered.
\<close>

definition browser_step ::
  "env \<Rightarrow> browser_config \<Rightarrow> bool \<Rightarrow> string \<Rightarrow> browser_run \<Rightarrow> browser_run option" where
  "browser_step E cfg is_last link st =
     (case processUrl E link of
        None \<Rightarrow> Some (st\<lparr>failed := failed st + 1\<rparr>)
      | Some pdfUrl \<Rightarrow>
          let filename = basename (url_pathname E pdfUrl);
              outputPath = path_join (b_outputDir cfg) filename
          in
          if existsSync (files (bw st)) outputPath then Some (st\<lparr>skipped := skipped st + 1\<rparr>)
          else if b_dryRun cfg then Some (st\<lparr>downloaded := downloaded st + 1\<rparr>)
          else
            (case downloadPDF E pdfUrl outputPath (bw st) of
               (None, w') \<Rightarrow> None
             | (Some ok, w') \<Rightarrow>
                 let st1 = (if ok then st\<lparr>bw := w', downloaded := downloaded st + 1\<rparr>
                            else st\<lparr>bw := w', failed := failed st + 1\<rparr>)
                 in
                 if \<not> is_last \<and> b_delay cfg > 0
                 then Some (st1\<lparr>bw := sleep (real_of_int (b_delay cfg)
                              + of_int \<lfloor>random E (now w') * real_of_int (b_delay cfg) * 0.5\<rfloor>) w'\<rparr>)
                 else Some st1))"

fun browser_loop ::
  "env \<Rightarrow> browser_config \<Rightarrow> string list \<Rightarrow> browser_run \<Rightarrow> browser_run option" where
  "browser_loop E cfg [] st = Some st"
| "browser_loop E cfg (link # rest) st =
     (case browser_step E cfg (rest = []) link st of
        None \<Rightarrow> None
      | Some st' \<Rightarrow> browser_loop E cfg rest st')"

section \<open>Sample worlds\<close>

text \<open>Concrete servers, configurations and worlds on which the theorems below are run.\<close>

definition respond :: "nat \<Rightarrow> string \<Rightarrow> response" where
  "respond st content =
     \<lparr>statusCode = st, location = None, setCookie = [], contentLength = None, body = content\<rparr>"

definition redirect_to :: "string \<Rightarrow> response" where
  "redirect_to target =
     \<lparr>statusCode = 302, location = Some target, setCookie = [], contentLength = None, body = []\<rparr>"

definition head_ok :: "nat \<Rightarrow> response" where
  "head_ok n =
     \<lparr>statusCode = 200, location = None, setCookie = [], contentLength = Some n, body = []\<rparr>"

definition sample_env :: "(nat \<Rightarrow> meth \<Rightarrow> string \<Rightarrow> reply) \<Rightarrow> env" where
  "sample_env srv =
     \<lparr>server = srv, random = (\<lambda>t. 1 / 2),
      url_protocol = (\<lambda>u. split_head ''//'' u),
      url_host = (\<lambda>u. takeWhile (\<lambda>c. c \<noteq> CHR ''/'') (drop (length (split_head ''//'' u) + 2) u)),
      url_pathname = (\<lambda>u. dropWhile (\<lambda>c. c \<noteq> CHR ''/'') (drop (length (split_head ''//'' u) + 2) u)),
      processUrl = Some\<rparr>"

definition sample_config :: config where
  "sample_config =
     \<lparr>edition = ''2022'', outputDir = ''out'', chapters = [1], delay = 0, delayVariation = 0,
      retries = 3, resume = False, dryRun = False, checkExisting = True, skipExisting = False\<rparr>"

definition empty_world :: world where
  "empty_world = \<lparr>cookieJar = [], files = [], trace = []\<rparr>"

definition intro_url :: string where
  "intro_url = ''https://www.wcoomd.org/-/media/wco/public/global/pdf/topics/nomenclature/instruments-and-tools/hs-nomenclature-2022/2022/introduction_2022e.pdf''"

text \<open>The URL of chapter 1 with the given heading code, edition 2022.\<close>

definition grid_url :: "string \<Rightarrow> string" where
  "grid_url heading = ''https://www.wcoomd.org/-/media/wco/public/global/pdf/topics/nomenclature/instruments-and-tools/hs-nomenclature-2022/2022/01'' @ heading @ ''_2022e.pdf''"


definition blocked_page :: string where
  "blocked_page = ''<html>blocked</html>''"



text \<open>
  A server that answers a HEAD with 200 and the given headers' length, and a GET with an
  eight-byte PDF.
\<close>

definition mirror_server :: "nat option \<Rightarrow> nat \<Rightarrow> meth \<Rightarrow> string \<Rightarrow> reply" where
  "mirror_server len t m u =
     (case m of
        HEAD \<Rightarrow> Resp \<lparr>statusCode = 200, location = None, setCookie = [], contentLength = len, body = []\<rparr>
      | GET \<Rightarrow> Resp (respond 200 ''%PDF-1.4''))"

text \<open>A world whose output directory holds heading 01.01 with the given content.\<close>

definition world_with_0101 :: "string \<Rightarrow> world" where
  "world_with_0101 content = \<lparr>cookieJar = [], files = [(''out/0101_2022e.pdf'', content)], trace = []\<rparr>"

text \<open>
  An output directory as an interrupted run leaves it: the introduction and headings 01.01 to
  01.05 of chapter 1, four bytes each; and the same directory without the introduction.
\<close>

definition five_headings :: "(string \<times> string) list" where
  "five_headings =
     [(''out/0101_2022e.pdf'', ''%PDF''), (''out/0102_2022e.pdf'', ''%PDF''),
      (''out/0103_2022e.pdf'', ''%PDF''), (''out/0104_2022e.pdf'', ''%PDF''),
      (''out/0105_2022e.pdf'', ''%PDF'')]"

definition interrupted_world :: world where
  "interrupted_world =
     \<lparr>cookieJar = [], files = (''out/introduction_2022e.pdf'', ''%PDF'') # five_headings, trace = []\<rparr>"

text \<open>A server that answers a HEAD with 200 and length 4, and every GET with 404.\<close>

definition unchanged_then_missing :: "nat \<Rightarrow> meth \<Rightarrow> string \<Rightarrow> reply" where
  "unchanged_then_missing t m u =
     (case m of HEAD \<Rightarrow> Resp (head_ok 4) | GET \<Rightarrow> Resp (respond 404 []))"

definition resume_config :: config where
  "resume_config = sample_config\<lparr>resume := True\<rparr>"

definition paced_config :: config where
  "paced_config = sample_config\<lparr>delay := 5000, delayVariation := 5000\<rparr>"

section \<open>Basic facts about the world operations\<close>

lemma trace_emit [simp]: "trace (emit e wd) = trace wd @ [e]"
  and files_emit [simp]: "files (emit e wd) = files wd"
  and cookieJar_emit [simp]: "cookieJar (emit e wd) = cookieJar wd"
  by (simp_all add: emit_def)

lemma trace_sleep [simp]: "trace (sleep ms wd) = trace wd @ [Sleep ms]"
  and files_sleep [simp]: "files (sleep ms wd) = files wd"
  and cookieJar_sleep [simp]: "cookieJar (sleep ms wd) = cookieJar wd"
  by (simp_all add: sleep_def)

lemma trace_writeFile [simp]: "trace (writeFile p c wd) = trace wd"
  and files_writeFile [simp]: "files (writeFile p c wd) = AList.update p c (files wd)"
  and cookieJar_writeFile [simp]: "cookieJar (writeFile p c wd) = cookieJar wd"
  by (simp_all add: writeFile_def)

lemma trace_createWriteStream [simp]: "trace (createWriteStream p wd) = trace wd"
  and files_createWriteStream [simp]: "files (createWriteStream p wd) = AList.update p [] (files wd)"
  and cookieJar_createWriteStream [simp]: "cookieJar (createWriteStream p wd) = cookieJar wd"
  by (simp_all add: createWriteStream_def)

lemma trace_unlinkSync [simp]: "trace (unlinkSync p wd) = trace wd"
  and files_unlinkSync [simp]: "files (unlinkSync p wd) = AList.delete p (files wd)"
  and cookieJar_unlinkSync [simp]: "cookieJar (unlinkSync p wd) = cookieJar wd"
  by (simp_all add: unlinkSync_def)

lemma trace_unlink_if_small [simp]: "trace (unlink_if_small p wd) = trace wd"
  by (simp add: unlink_if_small_def split: option.splits)

lemma trace_unlink_if_exists [simp]: "trace (unlink_if_exists p wd) = trace wd"
  by (simp add: unlink_if_exists_def)

lemma now_emit [simp]: "now (emit e wd) = Suc (now wd)"
  and now_sleep [simp]: "now (sleep ms wd) = Suc (now wd)"
  by (simp_all add: now_def)

lemma existsSync_update [simp]: "existsSync (AList.update p c fs) q = (q = p \<or> existsSync fs q)"
  by (simp add: existsSync_def update_conv')

lemma existsSync_delete [simp]: "existsSync (AList.delete p fs) q = (q \<noteq> p \<and> existsSync fs q)"
  by (simp add: existsSync_def delete_conv')

lemma getLocalFileSize_update [simp]:
  "getLocalFileSize (AList.update p c fs) q = (if q = p then Some (length c) else getLocalFileSize fs q)"
  by (simp add: getLocalFileSize_def update_conv')

lemma getLocalFileSize_delete [simp]:
  "getLocalFileSize (AList.delete p fs) q = (if q = p then None else getLocalFileSize fs q)"
  by (simp add: getLocalFileSize_def delete_conv')


text \<open>The stub that \<^verbatim>\<open>createWriteStream\<close> has just made is always small enough to be deleted.\<close>

lemma unlink_if_small_fresh [simp]:
  "files wd = AList.update p [] fs \<Longrightarrow> files (unlink_if_small p wd) = AList.delete p fs"
  by (simp add: unlink_if_small_def delete_update_same)

lemma additional_loop_append:
  "additional_loop E cfg (xs @ ys) st =
     (case additional_loop E cfg xs st of
        Ok st' \<Rightarrow> additional_loop E cfg ys st'
      | Exit c st' \<Rightarrow> Exit c st'
      | Hang st' \<Rightarrow> Hang st')"
  by (induction xs arbitrary: st) (auto split: outcome.splits)

text \<open>A download that ends as "not found" ends right after the GET that was answered so.\<close>

lemma attemptDownload_404_last:
  "attemptDownload E p n maxR a u rc wd = (Resolved r, wd') \<Longrightarrow> status r = Some 404 \<Longrightarrow>
     \<exists>evs u'. trace wd' = trace wd @ evs @ [Request GET u']"
proof (induction E p n maxR a u rc wd rule: attemptDownload.induct)
  case (1 E p n maxR a u rc wd)
  show ?case
  proof (cases "maxR \<le> rc")
    case True
    with "1.prems" show ?thesis
      by (auto simp: attemptDownload.simps [of E p n maxR a u rc wd] failure_def)
  next
    case False
    note nr = this
    let ?w1 = "emit (Request GET u) (createWriteStream p wd)"
    show ?thesis
    proof (cases "server E (now wd) GET u")
      case Timeout
      with nr "1.prems" show ?thesis
        by (simp add: attemptDownload.simps [of E p n maxR a u rc wd])
    next
      case NetError
      show ?thesis
      proof (cases "int a < n")
        case True
        let ?w2 = "if n \<le> int a then unlink_if_small p ?w1 else ?w1"
        from True nr NetError "1.prems"
        have "attemptDownload E p n maxR (a + 1) u rc (sleep (1000 * real a) ?w2) = (Resolved r, wd')"
          by (simp add: attemptDownload.simps [of E p n maxR a u rc wd])
        from "1.IH"(3) [OF nr refl NetError refl True this "1.prems"(2)]
        obtain evs u' where "trace wd' = trace (sleep (1000 * real a) ?w2) @ evs @ [Request GET u']"
          by auto
        with True have "trace wd' = trace wd @ ([Request GET u, Sleep (1000 * real a)] @ evs) @ [Request GET u']"
          by simp
        then show ?thesis by blast
      next
        case False
        with nr NetError "1.prems" show ?thesis
          by (simp add: attemptDownload.simps [of E p n maxR a u rc wd])
      qed
    next
      case (Resp res)
      let ?w2 = "?w1\<lparr>cookieJar := extractCookies (setCookie res) (cookieJar ?w1)\<rparr>"
      have base: "trace ?w2 = trace wd @ [] @ [Request GET u]" by simp
      show ?thesis
      proof (cases "is_redirect (statusCode res)")
        case True
        note red = this
        show ?thesis
        proof (cases "location_of res")
          case None
          with nr Resp red "1.prems" have "r = failure (statusCode res) (''HTTP '' @ String_nat (statusCode res) @ '' - No redirect location'')"
            by (simp add: attemptDownload.simps [of E p n maxR a u rc wd])
          with "1.prems"(2) red show ?thesis
            by (auto simp: failure_def is_redirect_def)
        next
          case (Some loc)
          show ?thesis
          proof (cases "str_includes loc ''/error'' \<or> str_includes loc ''404''")
            case True
            with nr Resp red Some "1.prems" have "wd' = unlink_if_small p ?w2"
              by (simp add: attemptDownload.simps [of E p n maxR a u rc wd] Let_def)
            with base show ?thesis by (metis trace_unlink_if_small)
          next
            case False
            with nr Resp red Some "1.prems"
            have "attemptDownload E p n maxR a (resolveRedirect E u loc) (rc + 1) ?w2 = (Resolved r, wd')"
              by (simp add: attemptDownload.simps [of E p n maxR a u rc wd] Let_def)
            from "1.IH"(1) [OF nr refl Resp refl red Some False this "1.prems"(2)]
            obtain evs u' where "trace wd' = trace ?w2 @ evs @ [Request GET u']" by auto
            then have "trace wd' = trace wd @ ([Request GET u] @ evs) @ [Request GET u']"
              by simp
            then show ?thesis by blast
          qed
        qed
      next
        case False
        note nred = this
        show ?thesis
        proof (cases "statusCode res = 404")
          case True
          with nr Resp nred "1.prems" have "wd' = unlink_if_small p ?w2"
            by (simp add: attemptDownload.simps [of E p n maxR a u rc wd] Let_def)
          with base show ?thesis by (metis trace_unlink_if_small)
        next
          case False
          note n404 = this
          show ?thesis
          proof (cases "statusCode res = 200")
            case True
            with nr Resp nred n404 "1.prems" show ?thesis
              by (auto simp: attemptDownload.simps [of E p n maxR a u rc wd] Let_def)
          next
            case False
            note n200 = this
            let ?w3 = "if 500 \<le> statusCode res \<and> n \<le> int a then unlink_if_small p ?w2 else ?w2"
            show ?thesis
            proof (cases "int a < n")
              case True
              with nr Resp nred n404 n200 "1.prems"
              have "attemptDownload E p n maxR (a + 1) u rc (sleep (1000 * real a) ?w3) = (Resolved r, wd')"
                by (simp add: attemptDownload.simps [of E p n maxR a u rc wd] Let_def)
              from "1.IH"(2) [OF nr refl Resp refl nred n404 n200 refl True this "1.prems"(2)]
              obtain evs u' where "trace wd' = trace (sleep (1000 * real a) ?w3) @ evs @ [Request GET u']"
                by auto
              with True have "trace wd' = trace wd @ ([Request GET u, Sleep (1000 * real a)] @ evs) @ [Request GET u']"
                by simp
              then show ?thesis by blast
            next
              case False
              with nr Resp nred n404 n200 "1.prems" show ?thesis
                by (auto simp: attemptDownload.simps [of E p n maxR a u rc wd] Let_def failure_def)
            qed
          qed
        qed
      qed
    qed
  qed
qed

section \<open>Running the loops on concrete worlds\<close>

lemma generateHeadings_eval:
  "generateHeadings c =
     [''01'', ''02'', ''03'', ''04'', ''05'', ''06'', ''07'', ''08'', ''09'', ''10'', ''11'',
      ''12'', ''13'', ''14'', ''15'', ''16'', ''17'', ''18'', ''19'', ''20'', ''21'', ''22'',
      ''23'', ''24'', ''25'', ''26'', ''27'', ''28'', ''29'', ''30'', ''31'', ''32'', ''33'',
      ''34'', ''35'', ''36'', ''37'', ''38'', ''39'', ''40'', ''41'', ''42'', ''43'', ''44'',
      ''45'', ''46'', ''47'', ''48'', ''49'', ''50'', ''51'', ''52'', ''53'', ''54'', ''55'',
      ''56'', ''57'', ''58'', ''59'', ''60'', ''61'', ''62'', ''63'', ''64'', ''65'', ''66'',
      ''67'', ''68'', ''69'', ''70'', ''71'', ''72'', ''73'', ''74'', ''75'', ''76'', ''77'',
      ''78'', ''79'', ''80'', ''81'', ''82'', ''83'', ''84'', ''85'', ''86'', ''87'', ''88'',
      ''89'', ''90'', ''91'', ''92'', ''93'', ''94'', ''95'', ''96'', ''97'', ''98'', ''99'']"
  by code_simp

lemma String_nat_Suc0: "String_nat (Suc 0) = ''1''"
  by (simp add: String_nat.simps [of "Suc 0"] digit_char_def)

lemma grid_filename_2022_1: "grid_filename ''2022'' (Suc 0) h = ''01'' @ h @ ''_2022e.pdf''"
  by (simp add: grid_filename_def padStart_def String_nat_Suc0)

lemma buildUrl_2022_1:
  "buildUrl ''2022'' (Suc 0) [a, b] = replaceAll ''{HEADING}'' [a, b]
     (''https://www.wcoomd.org/-/media/wco/public/global/pdf/topics/nomenclature/instruments-and-tools/hs-nomenclature-2022/2022/01{HEADING}_2022e.pdf'')"
  by (simp add: buildUrl_def BASE_URL_def padStart_def String_nat_Suc0)

lemma heading_loop_Ok:
  "process_heading E cfg c h st = Ok st' \<Longrightarrow>
   (case r of None \<Rightarrow> False | Some (rc, rh) \<Rightarrow> c = rc \<and> parseInt_digits h \<le> rh) = False \<Longrightarrow>
   heading_loop E cfg r c (h # rest) st = heading_loop E cfg r c rest st'"
  by simp

lemma heading_loop_stop:
  "process_heading E cfg c h st = Exit k st' \<Longrightarrow>
   (case r of None \<Rightarrow> False | Some (rc, rh) \<Rightarrow> c = rc \<and> parseInt_digits h \<le> rh) = False \<Longrightarrow>
   heading_loop E cfg r c (h # rest) st = Exit k st'"
  by simp

lemma heading_loop_resume_skip:
  "c = rc \<Longrightarrow> parseInt_digits h \<le> rh \<Longrightarrow>
   heading_loop E cfg (Some (rc, rh)) c (h # rest) st = heading_loop E cfg (Some (rc, rh)) c rest st"
  by simp

lemma chapter_loop_stop:
  "heading_loop E cfg r c (generateHeadings c) st = Exit k st' \<Longrightarrow>
   (case r of None \<Rightarrow> False | Some (rc, rh) \<Rightarrow> c < rc) = False \<Longrightarrow>
   chapter_loop E cfg r (c # rest) st = Exit k st'"
  by simp

lemmas sample_defs =
  sample_env_def sample_config_def empty_world_def respond_def redirect_to_def head_ok_def

lemmas world_defs =
  now_def emit_def sleep_def createWriteStream_def writeFile_def unlinkSync_def
  unlink_if_small_def unlink_if_exists_def getLocalFileSize_def existsSync_def path_join_def
  extractCookies_def cookie_pairs_def is_redirect_def location_of_def failure_def

lemmas step_defs =
  process_heading_def process_additional_def process_file_def should_fetch_def fetch_and_record_def
  downloadFile_def checkFileChanged_def pace_def head_pause_def getRandomDelay_def
  grid_filename_2022_1 buildUrl_2022_1 buildAdditionalUrl_def BASE_URL_ADDITIONAL_def
  grid_url_def intro_url_def mainPageUrl_def

section \<open>The fetcher, answer by answer\<close>

text \<open>What \<^verbatim>\<open>attemptDownload\<close> does with each kind of answer.\<close>

lemma attemptDownload_too_many:
  "maxR \<le> rc \<Longrightarrow>
   attemptDownload E p n maxR a u rc wd = (Resolved (failure 0 ''Too many redirects''), wd)"
  by (simp add: attemptDownload.simps [of E p n maxR a u rc wd])

lemma attemptDownload_timeout:
  "\<not> maxR \<le> rc \<Longrightarrow> server E (now wd) GET u = Timeout \<Longrightarrow>
   attemptDownload E p n maxR a u rc wd = (Hung, emit (Request GET u) (createWriteStream p wd))"
  by (simp add: attemptDownload.simps [of E p n maxR a u rc wd])

lemma attemptDownload_error_retry:
  "\<not> maxR \<le> rc \<Longrightarrow> server E (now wd) GET u = NetError \<Longrightarrow> int a < n \<Longrightarrow>
   attemptDownload E p n maxR a u rc wd =
     attemptDownload E p n maxR (a + 1) u rc
       (sleep (1000 * real a) (emit (Request GET u) (createWriteStream p wd)))"
  by (simp add: attemptDownload.simps [of E p n maxR a u rc wd])

lemma attemptDownload_error_final:
  "\<not> maxR \<le> rc \<Longrightarrow> server E (now wd) GET u = NetError \<Longrightarrow> \<not> int a < n \<Longrightarrow>
   attemptDownload E p n maxR a u rc wd =
     (Rejected, unlink_if_small p (emit (Request GET u) (createWriteStream p wd)))"
  by (simp add: attemptDownload.simps [of E p n maxR a u rc wd])

lemma attemptDownload_404:
  "\<not> maxR \<le> rc \<Longrightarrow> server E (now wd) GET u = Resp res \<Longrightarrow> statusCode res = 404 \<Longrightarrow>
   attemptDownload E p n maxR a u rc wd =
     (Resolved (failure 404 ''Not Found''), unlink_if_small p (observed p u res wd))"
  by (simp add: attemptDownload.simps [of E p n maxR a u rc wd] is_redirect_def)

lemma attemptDownload_200:
  "\<not> maxR \<le> rc \<Longrightarrow> server E (now wd) GET u = Resp res \<Longrightarrow> statusCode res = 200 \<Longrightarrow>
   attemptDownload E p n maxR a u rc wd =
     (Resolved \<lparr>success = True, status = None, error = None, size_bytes = Some (length (body res))\<rparr>,
      writeFile p (body res) (observed p u res wd))"
  by (simp add: attemptDownload.simps [of E p n maxR a u rc wd] is_redirect_def)

lemma attemptDownload_status_retry:
  "\<not> maxR \<le> rc \<Longrightarrow> server E (now wd) GET u = Resp res \<Longrightarrow> \<not> is_redirect (statusCode res) \<Longrightarrow>
   statusCode res \<noteq> 404 \<Longrightarrow> statusCode res \<noteq> 200 \<Longrightarrow> int a < n \<Longrightarrow>
   attemptDownload E p n maxR a u rc wd =
     attemptDownload E p n maxR (a + 1) u rc (sleep (1000 * real a) (observed p u res wd))"
  by (simp add: attemptDownload.simps [of E p n maxR a u rc wd])

lemma attemptDownload_status_final:
  "\<not> maxR \<le> rc \<Longrightarrow> server E (now wd) GET u = Resp res \<Longrightarrow> \<not> is_redirect (statusCode res) \<Longrightarrow>
   statusCode res \<noteq> 404 \<Longrightarrow> statusCode res \<noteq> 200 \<Longrightarrow> \<not> int a < n \<Longrightarrow>
   attemptDownload E p n maxR a u rc wd =
     (Resolved (failure (statusCode res) (''HTTP '' @ String_nat (statusCode res))),
      if 500 \<le> statusCode res then unlink_if_small p (observed p u res wd) else observed p u res wd)"
  by (simp add: attemptDownload.simps [of E p n maxR a u rc wd])

lemma attemptDownload_redirect_follow:
  "\<not> maxR \<le> rc \<Longrightarrow> server E (now wd) GET u = Resp res \<Longrightarrow> is_redirect (statusCode res) \<Longrightarrow>
   location_of res = Some loc \<Longrightarrow> \<not> str_includes loc ''/error'' \<Longrightarrow> \<not> str_includes loc ''404'' \<Longrightarrow>
   attemptDownload E p n maxR a u rc wd =
     attemptDownload E p n maxR a (resolveRedirect E u loc) (rc + 1) (observed p u res wd)"
  by (simp add: attemptDownload.simps [of E p n maxR a u rc wd])

lemma attemptDownload_redirect_error_page:
  "\<not> maxR \<le> rc \<Longrightarrow> server E (now wd) GET u = Resp res \<Longrightarrow> is_redirect (statusCode res) \<Longrightarrow>
   location_of res = Some loc \<Longrightarrow> str_includes loc ''/error'' \<or> str_includes loc ''404'' \<Longrightarrow>
   attemptDownload E p n maxR a u rc wd =
     (Resolved (failure 404 ''Not Found (redirected to error page)''),
      unlink_if_small p (observed p u res wd))"
  by (simp add: attemptDownload.simps [of E p n maxR a u rc wd])

text \<open>A download answered the same way at every attempt.\<close>

lemma retry_trace_step: "int a < n \<Longrightarrow>
  retry_trace u a n = [Request GET u, Sleep (1000 * real a)] @ retry_trace u (a + 1) n"
proof -
  assume "int a < n"
  then have "a < nat n" by simp
  then have "[a..<nat n] = a # [Suc a..<nat n]" by (rule upt_conv_Cons)
  then show ?thesis by (simp add: retry_trace_def)
qed

lemma retry_trace_last: "\<not> int a < n \<Longrightarrow> retry_trace u a n = [Request GET u]"
  by (simp add: retry_trace_def)

lemma attemptDownload_constant_status:
  assumes srv: "\<forall>t. server E t GET u = Resp res"
    and st: "\<not> is_redirect (statusCode res)" "statusCode res \<noteq> 404" "statusCode res \<noteq> 200"
    and rc: "\<not> maxR \<le> rc"
  shows "fst (attemptDownload E p n maxR a u rc wd)
           = Resolved (failure (statusCode res) (''HTTP '' @ String_nat (statusCode res)))
         \<and> trace (snd (attemptDownload E p n maxR a u rc wd)) = trace wd @ retry_trace u a n"
proof (induction "nat n - a" arbitrary: a wd)
  case 0
  then have fin: "\<not> int a < n" by simp
  from srv have "server E (now wd) GET u = Resp res" by simp
  from attemptDownload_status_final [OF rc this st fin, of p] fin show ?case
    by (simp add: retry_trace_last)
next
  case (Suc k)
  then have lt: "int a < n" and k: "k = nat n - (a + 1)" by simp_all
  from srv have "server E (now wd) GET u = Resp res" by simp
  from attemptDownload_status_retry [OF rc this st lt, of p] Suc.hyps(1) [OF k] lt
  show ?case
    by (simp add: retry_trace_step)
qed


lemma retry_trace_1_3:
  "retry_trace u (Suc 0) 3 = [Request GET u, Sleep 1000, Request GET u, Sleep 2000, Request GET u]"
  by (simp add: retry_trace_def upt_conv_Cons)



section \<open>The change detector, answer by answer\<close>

text \<open>What \<^verbatim>\<open>checkFile\<close> does with each kind of answer.\<close>

lemma checkFile_too_many: "maxR \<le> rc \<Longrightarrow> checkFile E p maxR u rc wd = (True, wd)"
  by (simp add: checkFile.simps [of E p maxR u rc wd] Let_def)

lemma checkFile_error:
  "\<not> maxR \<le> rc \<Longrightarrow> server E (now wd) HEAD u = NetError \<or> server E (now wd) HEAD u = Timeout \<Longrightarrow>
   checkFile E p maxR u rc wd = (True, emit (Request HEAD u) wd)"
  by (auto simp: checkFile.simps [of E p maxR u rc wd] Let_def)

lemma checkFile_status:
  "\<not> maxR \<le> rc \<Longrightarrow> server E (now wd) HEAD u = Resp res \<Longrightarrow> \<not> is_redirect (statusCode res) \<Longrightarrow>
   statusCode res \<noteq> 200 \<Longrightarrow> checkFile E p maxR u rc wd = (True, emit (Request HEAD u) wd)"
  by (simp add: checkFile.simps [of E p maxR u rc wd] Let_def)

lemma checkFile_no_location:
  "\<not> maxR \<le> rc \<Longrightarrow> server E (now wd) HEAD u = Resp res \<Longrightarrow> is_redirect (statusCode res) \<Longrightarrow>
   location_of res = None \<Longrightarrow> checkFile E p maxR u rc wd = (True, emit (Request HEAD u) wd)"
  by (simp add: checkFile.simps [of E p maxR u rc wd] Let_def)

lemma checkFile_follow:
  "\<not> maxR \<le> rc \<Longrightarrow> server E (now wd) HEAD u = Resp res \<Longrightarrow> is_redirect (statusCode res) \<Longrightarrow>
   location_of res = Some loc \<Longrightarrow>
   checkFile E p maxR u rc wd
     = checkFile E p maxR (resolveRedirect E u loc) (rc + 1) (emit (Request HEAD u) wd)"
  by (simp add: checkFile.simps [of E p maxR u rc wd] Let_def)

lemma checkFile_200:
  "\<not> maxR \<le> rc \<Longrightarrow> server E (now wd) HEAD u = Resp res \<Longrightarrow> statusCode res = 200 \<Longrightarrow>
   checkFile E p maxR u rc wd
     = (getLocalFileSize (files wd) p \<noteq> Some (case contentLength res of None \<Rightarrow> 0 | Some n \<Rightarrow> n),
        emit (Request HEAD u) wd)"
  by (auto simp: checkFile.simps [of E p maxR u rc wd] is_redirect_def Let_def)

text \<open>
  The change detector only sends HEAD requests; it touches neither the files nor the cookie
  jar. It answers "unchanged" only on a 200 whose length, read as 0 when the header is
  missing, is the size of the local file.
\<close>

lemma checkFile_effects:
  "checkFile E p maxR u rc wd = (b, wd') \<Longrightarrow>
     files wd' = files wd \<and> cookieJar wd' = cookieJar wd
     \<and> (\<exists>evs. trace wd' = trace wd @ evs \<and> (\<forall>e \<in> set evs. \<exists>u'. e = Request HEAD u'))
     \<and> (\<not> b \<longrightarrow> (\<exists>t u' res. server E t HEAD u' = Resp res \<and> statusCode res = 200
            \<and> getLocalFileSize (files wd) p
                = Some (case contentLength res of None \<Rightarrow> 0 | Some n \<Rightarrow> n)))"
proof (induction E p maxR u rc wd rule: checkFile.induct)
  case (1 E p maxR u rc wd)
  show ?case
  proof (cases "maxR \<le> rc")
    case True
    with "1.prems" show ?thesis by (auto simp: checkFile_too_many)
  next
    case False
    note nr = this
    show ?thesis
    proof (cases "server E (now wd) HEAD u")
      case NetError
      with nr "1.prems" show ?thesis by (auto simp: checkFile_error)
    next
      case Timeout
      with nr "1.prems" show ?thesis by (auto simp: checkFile_error)
    next
      case (Resp res)
      show ?thesis
      proof (cases "is_redirect (statusCode res)")
        case True
        note red = this
        show ?thesis
        proof (cases "location_of res")
          case None
          with nr Resp red "1.prems" show ?thesis by (auto simp: checkFile_no_location)
        next
          case (Some loc)
          with nr Resp red "1.prems"
          have rec: "checkFile E p maxR (resolveRedirect E u loc) (rc + 1) (emit (Request HEAD u) wd) = (b, wd')"
            by (simp add: checkFile_follow)
          from "1.IH" [OF nr refl Resp red Some rec]
          obtain evs where f: "files wd' = files wd" and c: "cookieJar wd' = cookieJar wd"
            and t: "trace wd' = (trace wd @ [Request HEAD u]) @ evs"
            and h: "\<forall>e \<in> set evs. \<exists>u'. e = Request HEAD u'"
            and n: "\<not> b \<longrightarrow> (\<exists>t u' res. server E t HEAD u' = Resp res \<and> statusCode res = 200
                \<and> getLocalFileSize (files wd) p = Some (case contentLength res of None \<Rightarrow> 0 | Some n \<Rightarrow> n))"
            by auto
          from t h have "trace wd' = trace wd @ (Request HEAD u # evs)
              \<and> (\<forall>e \<in> set (Request HEAD u # evs). \<exists>u'. e = Request HEAD u')"
            by simp
          with f c n show ?thesis by blast
        qed
      next
        case False
        note nred = this
        show ?thesis
        proof (cases "statusCode res = 200")
          case True
          with nr Resp "1.prems" have b: "b = (getLocalFileSize (files wd) p
                \<noteq> Some (case contentLength res of None \<Rightarrow> 0 | Some n \<Rightarrow> n))"
            and w: "wd' = emit (Request HEAD u) wd"
            by (simp_all add: checkFile_200)
          from w have "trace wd' = trace wd @ [Request HEAD u]
              \<and> (\<forall>e \<in> set [Request HEAD u]. \<exists>u'. e = Request HEAD u')"
            by simp
          moreover from b Resp True have "\<not> b \<longrightarrow> (\<exists>t u' res. server E t HEAD u' = Resp res \<and> statusCode res = 200
                \<and> getLocalFileSize (files wd) p = Some (case contentLength res of None \<Rightarrow> 0 | Some n \<Rightarrow> n))"
            by blast
          ultimately show ?thesis using w by (simp del: set_simps)
        next
          case False
          with nr Resp nred "1.prems" show ?thesis by (auto simp: checkFile_status)
        qed
      qed
    qed
  qed
qed


section \<open>Pauses and the order of events\<close>

lemma getRandomDelay_bounds:
  assumes "0 \<le> r" "r < 1" "0 \<le> v"
  shows "b \<le> getRandomDelay b v r" and "getRandomDelay b v r \<le> b + v"
    and "0 < v \<Longrightarrow> getRandomDelay b v r < b + v"
proof -
  from assms have nn: "0 \<le> r * v" by simp
  then have "(0::int) \<le> \<lfloor>r * v\<rfloor>" by simp
  then show "b \<le> getRandomDelay b v r" by (simp add: getRandomDelay_def)
  have le: "real_of_int \<lfloor>r * v\<rfloor> \<le> r * v" by (rule of_int_floor_le)
  from assms have "r * v \<le> 1 * v" by (intro mult_right_mono) simp_all
  with le have "real_of_int \<lfloor>r * v\<rfloor> \<le> v" by linarith
  then show "getRandomDelay b v r \<le> b + v" by (simp add: getRandomDelay_def)
  assume "0 < v"
  with assms have "r * v < 1 * v" by (intro mult_strict_right_mono) simp_all
  with le have "real_of_int \<lfloor>r * v\<rfloor> < v" by linarith
  then show "getRandomDelay b v r < b + v" by (simp add: getRandomDelay_def)
qed

text \<open>A download only adds events, and a check that is made starts with the HEAD for its URL.\<close>

lemma attemptDownload_trace_extends:
  "\<exists>evs. trace (snd (attemptDownload E p n maxR a u rc wd)) = trace wd @ evs"
proof (induction E p n maxR a u rc wd rule: attemptDownload.induct)
  case (1 E p n maxR a u rc wd)
  show ?case
  proof (cases "maxR \<le> rc")
    case True
    then show ?thesis by (simp add: attemptDownload_too_many)
  next
    case False
    note nr = this
    show ?thesis
    proof (cases "server E (now wd) GET u")
      case Timeout
      with nr show ?thesis by (simp add: attemptDownload_timeout)
    next
      case NetError
      show ?thesis
      proof (cases "int a < n")
        case True
        let ?w1 = "emit (Request GET u) (createWriteStream p wd)"
        let ?w2 = "if n \<le> int a then unlink_if_small p ?w1 else ?w1"
        from "1.IH"(3) [OF nr refl NetError refl True]
        obtain evs where "trace (snd (attemptDownload E p n maxR (a + 1) u rc (sleep (1000 * real a) ?w2)))
            = trace (sleep (1000 * real a) ?w2) @ evs"
          by blast
        with True nr NetError show ?thesis
          by (simp add: attemptDownload_error_retry)
      next
        case False
        with nr NetError show ?thesis by (simp add: attemptDownload_error_final)
      qed
    next
      case (Resp res)
      let ?w1 = "emit (Request GET u) (createWriteStream p wd)"
      let ?w2 = "?w1\<lparr>cookieJar := extractCookies (setCookie res) (cookieJar ?w1)\<rparr>"
      show ?thesis
      proof (cases "is_redirect (statusCode res)")
        case True
        note red = this
        show ?thesis
        proof (cases "location_of res")
          case None
          with nr Resp red show ?thesis
            by (simp add: attemptDownload.simps [of E p n maxR a u rc wd])
        next
          case (Some loc)
          show ?thesis
          proof (cases "str_includes loc ''/error'' \<or> str_includes loc ''404''")
            case True
            with nr Resp red Some show ?thesis
              by (simp add: attemptDownload_redirect_error_page)
          next
            case False
            from "1.IH"(1) [OF nr refl Resp refl red Some False]
            obtain evs where "trace (snd (attemptDownload E p n maxR a (resolveRedirect E u loc) (rc + 1) ?w2))
                = trace ?w2 @ evs"
              by blast
            with False nr Resp red Some show ?thesis
              by (simp add: attemptDownload_redirect_follow)
          qed
        qed
      next
        case False
        note nred = this
        show ?thesis
        proof (cases "statusCode res = 404")
          case True
          with nr Resp show ?thesis by (simp add: attemptDownload_404)
        next
          case False
          note n404 = this
          show ?thesis
          proof (cases "statusCode res = 200")
            case True
            with nr Resp show ?thesis by (simp add: attemptDownload_200)
          next
            case False
            note n200 = this
            let ?w3 = "if 500 \<le> statusCode res \<and> n \<le> int a then unlink_if_small p ?w2 else ?w2"
            show ?thesis
            proof (cases "int a < n")
              case True
              from "1.IH"(2) [OF nr refl Resp refl nred n404 n200 refl True]
              obtain evs where "trace (snd (attemptDownload E p n maxR (a + 1) u rc (sleep (1000 * real a) ?w3)))
                  = trace (sleep (1000 * real a) ?w3) @ evs"
                by blast
              with True nr Resp nred n404 n200 show ?thesis
                by (simp add: attemptDownload_status_retry)
            next
              case False
              with nr Resp nred n404 n200 show ?thesis
                by (simp add: attemptDownload_status_final)
            qed
          qed
        qed
      qed
    qed
  qed
qed

lemma checkFile_first:
  assumes nr: "\<not> maxR \<le> rc"
  shows "\<exists>evs. trace (snd (checkFile E p maxR u rc wd)) = trace wd @ Request HEAD u # evs
           \<and> (\<forall>e \<in> set evs. \<exists>u'. e = Request HEAD u')"
proof (cases "server E (now wd) HEAD u")
  case NetError
  with nr show ?thesis by (simp add: checkFile_error)
next
  case Timeout
  with nr show ?thesis by (simp add: checkFile_error)
next
  case (Resp res)
  show ?thesis
  proof (cases "is_redirect (statusCode res)")
    case True
    note red = this
    show ?thesis
    proof (cases "location_of res")
      case None
      with nr Resp red show ?thesis by (simp add: checkFile_no_location)
    next
      case (Some loc)
      let ?next = "checkFile E p maxR (resolveRedirect E u loc) (rc + 1) (emit (Request HEAD u) wd)"
      from checkFile_effects [of E p maxR "resolveRedirect E u loc" "rc + 1" "emit (Request HEAD u) wd"
          "fst ?next" "snd ?next"]
      obtain evs where "trace (snd ?next) = trace (emit (Request HEAD u) wd) @ evs"
        and "\<forall>e \<in> set evs. \<exists>u'. e = Request HEAD u'"
        by auto
      with nr Resp red Some show ?thesis
        by (simp add: checkFile_follow)
    qed
  next
    case False
    note nred = this
    show ?thesis
    proof (cases "statusCode res = 200")
      case True
      with nr Resp show ?thesis by (simp add: checkFile_200)
    next
      case False
      with nr Resp nred show ?thesis by (simp add: checkFile_status)
    qed
  qed
qed

lemma attemptDownload_first:
  assumes nr: "\<not> maxR \<le> rc"
  shows "\<exists>evs. trace (snd (attemptDownload E p n maxR a u rc wd)) = trace wd @ Request GET u # evs"
proof -
  let ?w1 = "emit (Request GET u) (createWriteStream p wd)"
  have ext: "\<exists>evs. trace (snd (attemptDownload E p n maxR a' u' rc' w')) = trace wd @ Request GET u # evs"
    if "\<exists>evs0. trace w' = trace wd @ Request GET u # evs0" for a' u' rc' w'
    using that attemptDownload_trace_extends [of E p n maxR a' u' rc' w'] by auto
  show ?thesis
  proof (cases "server E (now wd) GET u")
    case Timeout
    with nr show ?thesis by (simp add: attemptDownload_timeout)
  next
    case NetError
    with nr show ?thesis
      by (cases "int a < n") (simp_all add: attemptDownload_error_retry attemptDownload_error_final ext)
  next
    case (Resp res)
    show ?thesis
    proof (cases "is_redirect (statusCode res)")
      case True
      note red = this
      show ?thesis
      proof (cases "location_of res")
        case None
        with nr Resp red show ?thesis
          by (simp add: attemptDownload.simps [of E p n maxR a u rc wd])
      next
        case (Some loc)
        with nr Resp red show ?thesis
          by (cases "str_includes loc ''/error'' \<or> str_includes loc ''404''")
            (simp_all add: attemptDownload_redirect_error_page attemptDownload_redirect_follow ext)
      qed
    next
      case False
      note nred = this
      show ?thesis
      proof (cases "statusCode res = 404 \<or> statusCode res = 200")
        case True
        with nr Resp show ?thesis
          by (auto simp: attemptDownload_404 attemptDownload_200)
      next
        case False
        with nr Resp nred show ?thesis
          by (cases "int a < n") (simp_all add: attemptDownload_status_retry attemptDownload_status_final ext)
      qed
    qed
  qed
qed

section \<open>Naming: format and injectivity\<close>

lemma digit_val_digit_char: "d < 10 \<Longrightarrow> digit_val (digit_char d) = d"
proof -
  assume "d < 10"
  then have "d \<in> {0, 1, 2, 3, 4, 5, 6, 7, 8, 9}" by auto
  then show ?thesis
    by (auto simp: digit_val_def digit_char_def)
qed

lemma digit_char_inj: "a < 10 \<Longrightarrow> b < 10 \<Longrightarrow> digit_char a = digit_char b \<Longrightarrow> a = b"
  by (metis digit_val_digit_char)

lemma pad2_String_nat:
  assumes "n < 100"
  shows "padStart 2 (CHR ''0'') (String_nat n) = [digit_char (n div 10), digit_char (n mod 10)]"
proof (cases "n < 10")
  case True
  then show ?thesis
    by (simp add: String_nat.simps [of n] padStart_def digit_char_def)
next
  case False
  with assms have "n div 10 < 10" by simp
  then have "String_nat (n div 10) = [digit_char (n div 10)]"
    by (simp add: String_nat.simps [of "n div 10"])
  with False show ?thesis
    by (simp add: String_nat.simps [of n] padStart_def)
qed

lemma pad2_inj:
  assumes "a < 100" "b < 100"
    and "padStart 2 (CHR ''0'') (String_nat a) = padStart 2 (CHR ''0'') (String_nat b)"
  shows "a = b"
proof -
  from assms have "digit_char (a div 10) = digit_char (b div 10)"
    and "digit_char (a mod 10) = digit_char (b mod 10)"
    by (simp_all add: pad2_String_nat)
  moreover from assms have "a div 10 < 10" "b div 10 < 10" "a mod 10 < 10" "b mod 10 < 10"
    by simp_all
  ultimately have "a div 10 = b div 10" "a mod 10 = b mod 10"
    by (blast dest: digit_char_inj)+
  then show ?thesis
    by (metis div_mult_mod_eq)
qed

lemma generateHeadings_nth:
  assumes "Suc 0 \<le> h" "h \<le> 99"
  shows "generateHeadings c ! (h - Suc 0) = padStart 2 (CHR ''0'') (String_nat h)"
proof -
  from assms have "[Suc 0..<100] ! (h - Suc 0) = Suc 0 + (h - Suc 0)"
    by (intro nth_upt) simp
  with assms show ?thesis
    by (simp add: generateHeadings_def)
qed

lemma generateHeadings_set:
  "set (generateHeadings c) = (\<lambda>h. padStart 2 (CHR ''0'') (String_nat h)) ` {1..99}"
  by (auto simp: generateHeadings_def)

lemma generateHeadings_length2: "h \<in> set (generateHeadings c) \<Longrightarrow> length h = 2"
  by (auto simp: generateHeadings_set pad2_String_nat)

text \<open>
  Claim C4. The file name of a coordinate document is a function of edition, chapter and
  heading alone. For every chapter in 1..97 and every heading number in 1..99 the heading
  code the grid uses is the two-digit form of the number, and the file name is the
  specification's format: two digits of chapter, two digits of heading, an underscore, the
  edition, \<open>e.pdf\<close>. Edition 2022, chapter 1, heading 01 gives \<open>0101_2022e.pdf\<close>. Two
  coordinates with the same file name are the same coordinate.
\<close>

theorem resolveFilename_format_injective:
  "(\<forall>chapter \<in> {1..97}. \<forall>h \<in> {1..99}.
      generateHeadings chapter ! (h - 1) = [digit_char (h div 10), digit_char (h mod 10)] \<and>
      grid_filename ed chapter (generateHeadings chapter ! (h - 1)) = spec_filename ed chapter h)
   \<and> grid_filename ''2022'' 1 ''01'' = ''0101_2022e.pdf''
   \<and> (\<forall>c1 \<in> {1..97}. \<forall>c2 \<in> {1..97}.
        \<forall>h1 \<in> set (generateHeadings c1). \<forall>h2 \<in> set (generateHeadings c2).
          grid_filename ed c1 h1 = grid_filename ed c2 h2 \<longrightarrow> c1 = c2 \<and> h1 = h2)"
proof (intro conjI ballI impI)
  fix ch h :: nat
  assume c: "ch \<in> {1..97}" and h: "h \<in> {1..99}"
  then show "generateHeadings ch ! (h - 1) = [digit_char (h div 10), digit_char (h mod 10)]"
    by (simp add: generateHeadings_nth pad2_String_nat)
  from c h show "grid_filename ed ch (generateHeadings ch ! (h - 1)) = spec_filename ed ch h"
    by (simp add: generateHeadings_nth pad2_String_nat grid_filename_def spec_filename_def)
next
  show "grid_filename ''2022'' 1 ''01'' = ''0101_2022e.pdf''"
    by (simp add: grid_filename_def pad2_String_nat digit_char_def)
next
  fix c1 c2 h1 h2
  assume c1: "c1 \<in> {1..97}" and c2: "c2 \<in> {1..97}"
    and h1: "h1 \<in> set (generateHeadings c1)" and h2: "h2 \<in> set (generateHeadings c2)"
    and eq: "grid_filename ed c1 h1 = grid_filename ed c2 h2"
  let ?p = "\<lambda>c. padStart 2 (CHR ''0'') (String_nat c)"
  from c1 c2 have len: "length (?p c1) = 2" "length (?p c2) = 2"
    by (simp_all add: pad2_String_nat)
  from eq have "?p c1 @ (h1 @ ''_'' @ ed @ ''e.pdf'') = ?p c2 @ (h2 @ ''_'' @ ed @ ''e.pdf'')"
    by (simp add: grid_filename_def)
  with len have p: "?p c1 = ?p c2" and r: "h1 @ ''_'' @ ed @ ''e.pdf'' = h2 @ ''_'' @ ed @ ''e.pdf''"
    by simp_all
  from p c1 c2 have "c1 = c2" by (auto intro: pad2_inj)
  moreover from r generateHeadings_length2 [OF h1] generateHeadings_length2 [OF h2] have "h1 = h2"
    by simp
  ultimately show "c1 = c2" and "h1 = h2" by simp_all
qed

theorem resolveFilename_format_injective_witness:
  "(1::nat) \<in> {1..97} \<and> (6::nat) \<in> {1..99} \<and> ''06'' \<in> set (generateHeadings 1)
   \<and> ''07'' \<in> set (generateHeadings 1)
   \<and> grid_filename ''2022'' 1 (generateHeadings 1 ! (6 - 1)) = ''0106_2022e.pdf''
   \<and> grid_filename ''2022'' 1 ''06'' \<noteq> grid_filename ''2022'' 1 ''07''"
proof -
  have m1: "''06'' \<in> set (generateHeadings 1)" and m2: "''07'' \<in> set (generateHeadings 1)"
    unfolding generateHeadings_set
    by (rule image_eqI [where x = 6], simp add: pad2_String_nat digit_char_def, simp,
        rule image_eqI [where x = 7], simp add: pad2_String_nat digit_char_def, simp)
  have r: "(1::nat) \<in> {1..97}" "(6::nat) \<in> {1..99}" by simp_all
  note t = resolveFilename_format_injective [of "''2022''"]
  from t r have "grid_filename ''2022'' 1 (generateHeadings 1 ! (6 - 1)) = spec_filename ''2022'' 1 6"
    by blast
  then have a: "grid_filename ''2022'' 1 (generateHeadings 1 ! (6 - 1)) = ''0106_2022e.pdf''"
    by (simp add: spec_filename_def digit_char_def)
  from t r(1) m1 m2 have "grid_filename ''2022'' 1 ''06'' = grid_filename ''2022'' 1 ''07'' \<longrightarrow> ''06'' = ''07''"
    by blast
  then have b: "grid_filename ''2022'' 1 ''06'' \<noteq> grid_filename ''2022'' 1 ''07''" by auto
  from r m1 m2 a b show ?thesis by simp
qed

section \<open>The cookie jar\<close>

lemma cookie_pairs_nonempty: "c \<in> set (cookie_pairs hs) \<Longrightarrow> c \<noteq> []"
  by (auto simp: cookie_pairs_def)

lemma cookie_pairs_origin:
  "c \<in> set (cookie_pairs hs) \<Longrightarrow> \<exists>h \<in> set hs. c = trim (split_first (CHR '';'') h)"
  by (auto simp: cookie_pairs_def)

text \<open>
  Claim C10, as stated, at a response whose only Set-Cookie header has nothing before its
  first semicolon: the response carries a Set-Cookie header, its name=value pairs join to the
  empty string, and the jar keeps the cookie of the earlier response.
\<close>

theorem cookie_jar_empty_pair_counterexample:
  "[''; Path=/''] \<noteq> ([] :: string list)
   \<and> join ''; '' (cookie_pairs [''; Path=/'']) = []
   \<and> extractCookies [''; Path=/''] ''sid=1'' = ''sid=1''"
  by (simp add: extractCookies_def cookie_pairs_def trim_def split_first_def)

text \<open>
  Claim C10, amended. The jar is replaced wholesale, not merged. The name=value pairs of
  a response are the non-empty trimmed texts before the first semicolon of its Set-Cookie
  headers. After a response with at least one such pair the jar is exactly these pairs joined
  by \<open>; \<close>, whatever it held before, so cookies of earlier responses (the warm-up visit
  included) are gone. A response with no Set-Cookie header, or whose Set-Cookie headers hold
  no such pair, leaves the jar unchanged.
\<close>

theorem cookie_jar_replaced_wholesale:
  "(cookie_pairs hs \<noteq> [] \<longrightarrow>
      extractCookies hs jar = join ''; '' (cookie_pairs hs)
      \<and> extractCookies hs (extractCookies earlier jar) = extractCookies hs jar')
   \<and> (cookie_pairs hs = [] \<longrightarrow> extractCookies hs jar = jar)
   \<and> extractCookies [] jar = jar
   \<and> (\<forall>c \<in> set (cookie_pairs hs). c \<noteq> [] \<and> (\<exists>h \<in> set hs. c = trim (split_first (CHR '';'') h)))"
  using cookie_pairs_origin [of _ hs]
  by (auto simp: extractCookies_def cookie_pairs_nonempty) (simp_all add: cookie_pairs_def)

theorem cookie_jar_replaced_wholesale_witness:
  "cookie_pairs [''a=1; Path=/'', '' b=2 ''] \<noteq> []
   \<and> extractCookies [''a=1; Path=/'', '' b=2 ''] ''warm=up'' = ''a=1; b=2''
   \<and> extractCookies [''a=1; Path=/'', '' b=2 ''] (extractCookies [''c=3''] ''warm=up'') = ''a=1; b=2''
   \<and> cookie_pairs [''; Secure''] = []
   \<and> extractCookies [''; Secure''] ''warm=up'' = ''warm=up''"
proof -
  have p: "cookie_pairs [''a=1; Path=/'', '' b=2 ''] = [''a=1'', ''b=2'']"
    by (simp add: cookie_pairs_def trim_def split_first_def js_space_def)
  have q: "cookie_pairs [''; Secure''] = []"
    by (simp add: cookie_pairs_def trim_def split_first_def)
  from p cookie_jar_replaced_wholesale [of "[''a=1; Path=/'', '' b=2 '']" "''warm=up''" "[''c=3'']" "''warm=up''"]
  have a: "extractCookies [''a=1; Path=/'', '' b=2 ''] ''warm=up'' = ''a=1; b=2''"
    and b: "extractCookies [''a=1; Path=/'', '' b=2 ''] (extractCookies [''c=3''] ''warm=up'') = ''a=1; b=2''"
    by simp_all
  from q cookie_jar_replaced_wholesale [of "[''; Secure'']" "''warm=up''"]
  have c: "extractCookies [''; Secure''] ''warm=up'' = ''warm=up''"
    by simp
  from p q a b c show ?thesis by simp
qed

section \<open>A missing mandatory document ends the run\<close>

text \<open>
  Claim C2. Let the loop over the mandatory (named) documents have passed the earlier
  documents without ending the run, and let the next document be one that is fetched (not
  skipped) and whose download resolves unsuccessfully with status 404. Then the run ends
  with \<open>process.exit(1)\<close> on the spot: the outcome of \<open>main\<close> is \<open>Exit 1\<close> in the very
  world the download left behind, whose trace ends with the GET that was answered "not
  found". No later mandatory document and no grid item is attempted; no request follows.
\<close>

theorem mandatory_404_aborts:
  assumes "\<not> dryRun cfg"
    and "additional_loop E cfg earlier (start (establishSession E (edition cfg) w0)) = Ok st"
    and "filename = replaceAll ''{EDITION}'' (edition cfg) pdfTemplate"
    and "url = buildAdditionalUrl (edition cfg) filename"
    and "should_fetch E cfg url (path_join (outputDir cfg) filename)
           (st\<lparr>totalAttempted := totalAttempted st + 1\<rparr>) = Fetch st1"
    and "downloadFile E url (path_join (outputDir cfg) filename) (retries cfg) 5 (wld st1)
           = (Resolved result, w')"
    and "\<not> success result" and "status result = Some 404"
  shows "main E cfg (earlier @ pdfTemplate # later) w0 = Exit 1 (st1\<lparr>wld := w'\<rparr>)
         \<and> (\<exists>evs u'. trace w' = trace (wld st1) @ evs @ [Request GET u'])"
proof
  from assms(1,5-8) have "fetch_and_record E cfg url (path_join (outputDir cfg) filename) st1
      = Exit 1 (st1\<lparr>wld := w'\<rparr>)"
    by (simp add: fetch_and_record_def)
  with assms(3-5) have "process_additional E cfg pdfTemplate st = Exit 1 (st1\<lparr>wld := w'\<rparr>)"
    by (simp add: process_additional_def process_file_def Let_def)
  with assms(2) have "additional_loop E cfg (earlier @ pdfTemplate # later)
      (start (establishSession E (edition cfg) w0)) = Exit 1 (st1\<lparr>wld := w'\<rparr>)"
    by (simp add: additional_loop_append)
  with assms(1) show "main E cfg (earlier @ pdfTemplate # later) w0 = Exit 1 (st1\<lparr>wld := w'\<rparr>)"
    by (simp add: main_def)
  from assms(6,8) show "\<exists>evs u'. trace w' = trace (wld st1) @ evs @ [Request GET u']"
    unfolding downloadFile_def by (rule attemptDownload_404_last)
qed

lemma intro_url: "buildAdditionalUrl ''2022'' ''introduction_2022e.pdf'' = intro_url"
  by (simp add: buildAdditionalUrl_def BASE_URL_ADDITIONAL_def intro_url_def)

lemma intro_name: "replaceAll ''{EDITION}'' ''2022'' ''introduction_{EDITION}e.pdf'' = ''introduction_2022e.pdf''"
  by simp

theorem mandatory_404_aborts_witness:
  "main (sample_env (\<lambda>t m u. Resp (respond 404 []))) sample_config
        [''introduction_{EDITION}e.pdf'', ''table-of-contents_{EDITION}e_rev.pdf''] empty_world
   = Exit 1 \<lparr>wld = \<lparr>cookieJar = [], files = [],
                      trace = [Request GET (mainPageUrl ''2022''), Request GET intro_url]\<rparr>,
              totalAttempted = 1, totalDownloaded = 0, totalFailed = 0, totalSkipped = 0\<rparr>"
proof -
  let ?E = "sample_env (\<lambda>t m u. Resp (respond 404 []))"
  let ?w1 = "\<lparr>cookieJar = [], files = [], trace = [Request GET (mainPageUrl ''2022'')]\<rparr>"
  let ?st = "start ?w1"
  let ?st1 = "?st\<lparr>totalAttempted := totalAttempted ?st + 1\<rparr>"
  let ?w' = "\<lparr>cookieJar = [], files = [], trace = [Request GET (mainPageUrl ''2022''), Request GET intro_url]\<rparr>"
  have s: "establishSession ?E (edition sample_config) empty_world = ?w1"
    by (simp add: establishSession_def sample_defs emit_def now_def extractCookies_def cookie_pairs_def)
  have 1: "\<not> dryRun sample_config" by (simp add: sample_defs)
  have 2: "additional_loop ?E sample_config [] (start (establishSession ?E (edition sample_config) empty_world)) = Ok ?st"
    by (simp add: s)
  have 3: "''introduction_2022e.pdf'' = replaceAll ''{EDITION}'' (edition sample_config) ''introduction_{EDITION}e.pdf''"
    by (simp add: sample_defs)
  have 4: "intro_url = buildAdditionalUrl (edition sample_config) ''introduction_2022e.pdf''"
    by (simp add: sample_defs intro_url)
  have 5: "should_fetch ?E sample_config intro_url (path_join (outputDir sample_config) ''introduction_2022e.pdf'')
           (?st\<lparr>totalAttempted := totalAttempted ?st + 1\<rparr>) = Fetch ?st1"
    by (simp add: should_fetch_def sample_defs start_def existsSync_def)
  have 6: "downloadFile ?E intro_url (path_join (outputDir sample_config) ''introduction_2022e.pdf'') (retries sample_config) 5 (wld ?st1)
           = (Resolved (failure 404 ''Not Found''), ?w')"
    by (simp add: downloadFile_def attemptDownload.simps sample_defs start_def
        is_redirect_def now_def emit_def createWriteStream_def writeFile_def unlink_if_small_def
        getLocalFileSize_def unlinkSync_def extractCookies_def cookie_pairs_def path_join_def)
  have 7: "\<not> success (failure 404 ''Not Found'')" and 8: "status (failure 404 ''Not Found'') = Some 404"
    by (simp_all add: failure_def)
  from mandatory_404_aborts [OF 1 2 3 4 5 6 7 8, of "[''table-of-contents_{EDITION}e_rev.pdf'']"]
  show ?thesis by (simp add: start_def)
qed

section \<open>A missing heading ends the run\<close>


section \<open>Content validation\<close>

text \<open>The browser script saves a body only when it begins with the PDF signature.\<close>

lemma downloadPDF_files:
  "downloadPDF E url p wd = (r, wd') \<Longrightarrow>
     (r = Some True \<and> (\<exists>content. take 4 content = ''%PDF'' \<and> files wd' = AList.update p content (files wd)))
     \<or> (r \<noteq> Some True \<and> files wd' = files wd)"
  by (auto simp: downloadPDF_def Let_def split: reply.splits if_splits)

text \<open>
  Claim C3, on the code. The origin answers the GET for heading 01.01 with status 200 and an
  HTML page. The HTTP script's \<open>downloadFile\<close> pipes the body into the target file and
  resolves with success: the page stays on disk as \<open>0101_2022e.pdf\<close> and is counted as
  downloaded, although its first four bytes are not \<open>%PDF\<close>. On the same answer the browser
  script's \<open>downloadPDF\<close> writes nothing and returns false. With status 403 the HTTP script
  leaves the empty stub of its write stream behind as the final file.
\<close>

theorem downloadFile_keeps_non_pdf:
  "process_heading (sample_env (\<lambda>t m u. Resp (respond 200 blocked_page))) sample_config 1 ''01''
     (start empty_world)
   = Ok \<lparr>wld = \<lparr>cookieJar = [], files = [(''out/0101_2022e.pdf'', blocked_page)],
                  trace = [Request GET (grid_url ''01'')]\<rparr>,
          totalAttempted = 1, totalDownloaded = 1, totalFailed = 0, totalSkipped = 0\<rparr>
   \<and> take 4 blocked_page \<noteq> ''%PDF''
   \<and> downloadPDF (sample_env (\<lambda>t m u. Resp (respond 200 blocked_page))) (grid_url ''01'')
        ''out/0101_2022e.pdf'' empty_world
     = (Some False, \<lparr>cookieJar = [], files = [], trace = [Request GET (grid_url ''01'')]\<rparr>)
   \<and> process_heading (sample_env (\<lambda>t m u. Resp (respond 403 blocked_page))) sample_config 1 ''01''
        (start empty_world)
     = Ok \<lparr>wld = \<lparr>cookieJar = [], files = [(''out/0101_2022e.pdf'', [])],
                    trace = [Request GET (grid_url ''01''), Sleep 1000, Request GET (grid_url ''01''),
                             Sleep 2000, Request GET (grid_url ''01'')]\<rparr>,
            totalAttempted = 1, totalDownloaded = 0, totalFailed = 1, totalSkipped = 0\<rparr>"
  by (simp add: step_defs attemptDownload.simps downloadPDF_def start_def blocked_page_def
      sample_defs world_defs Let_def)

section \<open>Responses 403 and 429\<close>

text \<open>
  Claim C5, as stated, on the first two headings of chapter 1 with an origin that answers
  every request with 403 and three retries configured: the download of heading 01.01 is
  tried three times, with sleeps of 1000 and 2000 ms in between, and is counted as failed;
  the run is not ended but goes on to heading 01.02, which fares the same.
\<close>

theorem blocked_403_counterexample:
  "heading_loop (sample_env (\<lambda>t m u. Resp (respond 403 []))) sample_config None 1 [''01'', ''02'']
     (start empty_world)
   = Ok \<lparr>wld = \<lparr>cookieJar = [],
                  files = [(''out/0101_2022e.pdf'', []), (''out/0102_2022e.pdf'', [])],
                  trace = [Request GET (grid_url ''01''), Sleep 1000, Request GET (grid_url ''01''),
                           Sleep 2000, Request GET (grid_url ''01''),
                           Request GET (grid_url ''02''), Sleep 1000, Request GET (grid_url ''02''),
                           Sleep 2000, Request GET (grid_url ''02'')]\<rparr>,
          totalAttempted = 2, totalDownloaded = 0, totalFailed = 2, totalSkipped = 0\<rparr>"
  by (simp add: step_defs attemptDownload.simps start_def sample_defs world_defs Let_def)

text \<open>
  Claim C5, amended. A response with status 403 or 429 is not set apart from other error
  statuses and never ends the run. In the HTTP script it is retried like every status other
  than 200, 404 and the redirects: against an origin that keeps answering so, the download
  makes its GETs with sleeps of 1000 ms times the attempt number in between and resolves as
  a failure with that status, which the orchestrator counts as failed before it pauses and
  goes on. In the browser script the request is made once, nothing is written,
  \<open>downloadPDF\<close> returns false, and the loop counts the link as failed and goes on.
\<close>

theorem blocked_status_retried_run_continues:
  assumes blocked: "statusCode res = 403 \<or> statusCode res = 429"
  shows "((\<forall>t. server E t GET url = Resp res) \<longrightarrow>
            fst (downloadFile E url p n 5 wd)
              = Resolved (failure (statusCode res) (''HTTP '' @ String_nat (statusCode res)))
            \<and> trace (snd (downloadFile E url p n 5 wd)) = trace wd @ retry_trace url 1 n)
       \<and> (\<not> dryRun cfg \<and> downloadFile E url p (retries cfg) 5 (wld st) = (Resolved result, wd')
            \<and> \<not> success result \<and> status result = Some (statusCode res) \<longrightarrow>
            fetch_and_record E cfg url p st
              = Ok (pace E cfg (st\<lparr>wld := wd', totalFailed := totalFailed st + 1\<rparr>)))
       \<and> (server E (now wd) GET url = Resp res \<longrightarrow>
            downloadPDF E url p wd = (Some False, emit (Request GET url) wd))
       \<and> (processUrl E link = Some url \<and> \<not> b_dryRun bcfg
            \<and> \<not> existsSync (files (bw bst)) (path_join (b_outputDir bcfg) (basename (url_pathname E url)))
            \<and> server E (now (bw bst)) GET url = Resp res \<longrightarrow>
            (\<exists>bst'. browser_step E bcfg is_last link bst = Some bst'
               \<and> failed bst' = failed bst + 1 \<and> downloaded bst' = downloaded bst
               \<and> skipped bst' = skipped bst \<and> files (bw bst') = files (bw bst)))"
proof (intro conjI impI)
  from blocked have st: "\<not> is_redirect (statusCode res)" "statusCode res \<noteq> 404" "statusCode res \<noteq> 200"
    by (auto simp: is_redirect_def)
  {
    assume srv: "\<forall>t. server E t GET url = Resp res"
    have rc: "\<not> (5::nat) \<le> 0" by simp
    from attemptDownload_constant_status [OF srv st rc, of p n 1 wd]
    show "fst (downloadFile E url p n 5 wd)
              = Resolved (failure (statusCode res) (''HTTP '' @ String_nat (statusCode res)))"
      and "trace (snd (downloadFile E url p n 5 wd)) = trace wd @ retry_trace url 1 n"
      by (simp_all add: downloadFile_def)
  }
  {
    assume "\<not> dryRun cfg \<and> downloadFile E url p (retries cfg) 5 (wld st) = (Resolved result, wd')
            \<and> \<not> success result \<and> status result = Some (statusCode res)"
    with st show "fetch_and_record E cfg url p st
              = Ok (pace E cfg (st\<lparr>wld := wd', totalFailed := totalFailed st + 1\<rparr>))"
      by (simp add: fetch_and_record_def)
  }
  {
    assume "server E (now wd) GET url = Resp res"
    with blocked show "downloadPDF E url p wd = (Some False, emit (Request GET url) wd)"
      by (auto simp: downloadPDF_def)
  }
  {
    assume a: "processUrl E link = Some url \<and> \<not> b_dryRun bcfg
            \<and> \<not> existsSync (files (bw bst)) (path_join (b_outputDir bcfg) (basename (url_pathname E url)))
            \<and> server E (now (bw bst)) GET url = Resp res"
    with blocked have "downloadPDF E url (path_join (b_outputDir bcfg) (basename (url_pathname E url))) (bw bst)
        = (Some False, emit (Request GET url) (bw bst))"
      by (auto simp: downloadPDF_def)
    with a show "\<exists>bst'. browser_step E bcfg is_last link bst = Some bst'
               \<and> failed bst' = failed bst + 1 \<and> downloaded bst' = downloaded bst
               \<and> skipped bst' = skipped bst \<and> files (bw bst') = files (bw bst)"
      by (simp add: browser_step_def Let_def)
  }
qed


theorem blocked_status_retried_run_continues_witness:
  "fst (downloadFile (sample_env (\<lambda>t m u. Resp (respond 403 []))) (grid_url ''01'') ''out/0101_2022e.pdf'' 3 5 empty_world)
     = Resolved (failure 403 ''HTTP 403'')
   \<and> trace (snd (downloadFile (sample_env (\<lambda>t m u. Resp (respond 403 []))) (grid_url ''01'') ''out/0101_2022e.pdf'' 3 5 empty_world))
     = [Request GET (grid_url ''01''), Sleep 1000, Request GET (grid_url ''01''), Sleep 2000,
        Request GET (grid_url ''01'')]
   \<and> fetch_and_record (sample_env (\<lambda>t m u. Resp (respond 403 []))) sample_config (grid_url ''01'')
        ''out/0101_2022e.pdf'' (start empty_world)
     = Ok \<lparr>wld = \<lparr>cookieJar = [], files = [(''out/0101_2022e.pdf'', [])],
                    trace = [Request GET (grid_url ''01''), Sleep 1000, Request GET (grid_url ''01''),
                             Sleep 2000, Request GET (grid_url ''01'')]\<rparr>,
            totalAttempted = 0, totalDownloaded = 0, totalFailed = 1, totalSkipped = 0\<rparr>
   \<and> downloadPDF (sample_env (\<lambda>t m u. Resp (respond 403 []))) (grid_url ''01'') ''out/0101_2022e.pdf'' empty_world
     = (Some False, \<lparr>cookieJar = [], files = [], trace = [Request GET (grid_url ''01'')]\<rparr>)
   \<and> (\<exists>bst'. browser_step (sample_env (\<lambda>t m u. Resp (respond 403 [])))
                \<lparr>b_outputDir = ''out'', b_delay = 0, b_dryRun = False\<rparr> False (grid_url ''01'')
                \<lparr>bw = empty_world, downloaded = 0, failed = 0, skipped = 0\<rparr> = Some bst'
              \<and> failed bst' = 1 \<and> downloaded bst' = 0 \<and> skipped bst' = 0 \<and> files (bw bst') = [])"
proof -
  let ?E = "sample_env (\<lambda>t m u. Resp (respond 403 []))"
  let ?res = "respond 403 []"
  let ?u = "grid_url ''01''"
  let ?p = "''out/0101_2022e.pdf''"
  let ?bcfg = "\<lparr>b_outputDir = ''out'', b_delay = 0, b_dryRun = False\<rparr>"
  let ?bst = "\<lparr>bw = empty_world, downloaded = 0, failed = 0, skipped = 0\<rparr>"
  let ?w' = "\<lparr>cookieJar = [], files = [(?p, [])],
               trace = [Request GET ?u, Sleep 1000, Request GET ?u, Sleep 2000, Request GET ?u]\<rparr>"
  have b: "statusCode ?res = 403 \<or> statusCode ?res = 429" by (simp add: respond_def)
  have srv: "\<forall>t. server ?E t GET ?u = Resp ?res" by (simp add: sample_env_def)
  have dl: "downloadFile ?E ?u ?p (retries sample_config) 5 (wld (start empty_world))
              = (Resolved (failure 403 ''HTTP 403''), ?w')"
    by (simp add: downloadFile_def attemptDownload.simps start_def String_nat.simps
        sample_defs world_defs digit_char_def)
  have h2: "\<not> dryRun sample_config \<and> downloadFile ?E ?u ?p (retries sample_config) 5 (wld (start empty_world))
              = (Resolved (failure 403 ''HTTP 403''), ?w')
            \<and> \<not> success (failure 403 ''HTTP 403'') \<and> status (failure 403 ''HTTP 403'') = Some (statusCode ?res)"
    using dl by (simp add: sample_defs failure_def)
  have h3: "server ?E (now empty_world) GET ?u = Resp ?res" by (simp add: sample_env_def)
  have h4: "processUrl ?E ?u = Some ?u \<and> \<not> b_dryRun ?bcfg
            \<and> \<not> existsSync (files (bw ?bst)) (path_join (b_outputDir ?bcfg) (basename (url_pathname ?E ?u)))
            \<and> server ?E (now (bw ?bst)) GET ?u = Resp ?res"
    by (simp add: sample_defs existsSync_def)
  note t = blocked_status_retried_run_continues [OF b, of ?E ?u ?p 3 empty_world sample_config
      "start empty_world" "failure 403 ''HTTP 403''" ?w' ?u ?bcfg ?bst False]
  from t srv have c1: "fst (downloadFile ?E ?u ?p 3 5 empty_world) = Resolved (failure 403 ''HTTP 403'')"
    and c2: "trace (snd (downloadFile ?E ?u ?p 3 5 empty_world))
               = [Request GET ?u, Sleep 1000, Request GET ?u, Sleep 2000, Request GET ?u]"
    by (simp_all add: respond_def empty_world_def retry_trace_1_3 String_nat.simps digit_char_def)
  from t h2 have c3: "fetch_and_record ?E sample_config ?u ?p (start empty_world)
       = Ok (pace ?E sample_config (start empty_world\<lparr>wld := ?w', totalFailed := totalFailed (start empty_world) + 1\<rparr>))"
    by blast
  from t h3 have c4: "downloadPDF ?E ?u ?p empty_world = (Some False, emit (Request GET ?u) empty_world)"
    by blast
  from t h4 have c5: "\<exists>bst'. browser_step ?E ?bcfg False ?u ?bst = Some bst'
              \<and> failed bst' = failed ?bst + 1 \<and> downloaded bst' = downloaded ?bst
              \<and> skipped bst' = skipped ?bst \<and> files (bw bst') = files (bw ?bst)"
    by blast
  from c1 c2 c3 c4 c5 show ?thesis
    by (simp add: pace_def start_def sample_config_def empty_world_def emit_def)
qed

section \<open>The retry policy\<close>





section \<open>Change detection\<close>




section \<open>Resuming\<close>

text \<open>
  Claim C8, on the code. With only the files of headings 01.01 to 01.05 in the output
  directory the scan finds the cursor (1, 5). But the directory of an interrupted run also
  holds \<open>introduction_2022e.pdf\<close>, which the same script downloads first, and that name
  sorts after every coordinate file name: the scan takes it as the last file, it does not
  match the coordinate pattern, and no cursor is set. The resumed run then sends a HEAD
  request for each of the headings 01.01 to 01.05 instead of passing them without any network
  call. (The origin here answers every HEAD with the local size and every GET with 404, so
  the run ends at heading 01.06.)
\<close>

theorem resume_cursor_lost:
  "find_resume resume_config \<lparr>cookieJar = [], files = five_headings, trace = []\<rparr> = Some (1, 5)
   \<and> find_resume resume_config interrupted_world = None
   \<and> main (sample_env unchanged_then_missing) resume_config [''introduction_{EDITION}e.pdf'']
        interrupted_world
     = Exit 1
        \<lparr>wld = \<lparr>cookieJar = [],
                 files = (''out/introduction_2022e.pdf'', ''%PDF'') # five_headings,
                 trace = [Request GET (mainPageUrl ''2022''), Request HEAD intro_url,
                          Request HEAD (grid_url ''01''), Request HEAD (grid_url ''02''),
                          Request HEAD (grid_url ''03''), Request HEAD (grid_url ''04''),
                          Request HEAD (grid_url ''05''), Request GET (grid_url ''06'')]\<rparr>,
         totalAttempted = 7, totalDownloaded = 0, totalFailed = 0, totalSkipped = 6\<rparr>"
proof (intro conjI)
  let ?E = "sample_env unchanged_then_missing"
  let ?fs = "(''out/introduction_2022e.pdf'', ''%PDF'') # five_headings"
  let ?S = "\<lambda>k tr. \<lparr>wld = \<lparr>cookieJar = [], files = ?fs, trace = tr\<rparr>,
       totalAttempted = k, totalDownloaded = 0, totalFailed = 0, totalSkipped = k\<rparr>"
  let ?t0 = "[Request GET (mainPageUrl ''2022''), Request HEAD intro_url]"
  let ?t1 = "?t0 @ [Request HEAD (grid_url ''01'')]"
  let ?t2 = "?t1 @ [Request HEAD (grid_url ''02'')]"
  let ?t3 = "?t2 @ [Request HEAD (grid_url ''03'')]"
  let ?t4 = "?t3 @ [Request HEAD (grid_url ''04'')]"
  let ?t5 = "?t4 @ [Request HEAD (grid_url ''05'')]"
  let ?end = "\<lparr>wld = \<lparr>cookieJar = [], files = ?fs, trace = ?t5 @ [Request GET (grid_url ''06'')]\<rparr>,
       totalAttempted = 7, totalDownloaded = 0, totalFailed = 0, totalSkipped = 6\<rparr>"
  note scan_defs = find_resume_def resume_config_def sample_config_def five_headings_def readdir_def
    startsWith_def endsWith_def match_coordinate_def is_digit_def parseInt_digits_def digit_val_def
    interrupted_world_def Let_def
  note eval = step_defs checkFile.simps attemptDownload.simps unchanged_then_missing_def
    resume_config_def five_headings_def sample_defs world_defs Let_def
  show "find_resume resume_config \<lparr>cookieJar = [], files = five_headings, trace = []\<rparr> = Some (1, 5)"
    by (simp add: scan_defs)
  show "find_resume resume_config interrupted_world = None"
    by (simp add: scan_defs)
  have r: "find_resume resume_config (wld (?S 1 ?t0)) = None"
    by (simp add: scan_defs)
  have a: "additional_loop ?E resume_config [''introduction_{EDITION}e.pdf'']
             (start (establishSession ?E ''2022'' interrupted_world)) = Ok (?S 1 ?t0)"
    by (simp add: establishSession_def start_def interrupted_world_def eval)
  have h1: "process_heading ?E resume_config (Suc 0) ''01'' (?S 1 ?t0) = Ok (?S 2 ?t1)"
    by (simp add: eval)
  have h2: "process_heading ?E resume_config (Suc 0) ''02'' (?S 2 ?t1) = Ok (?S 3 ?t2)"
    by (simp add: eval)
  have h3: "process_heading ?E resume_config (Suc 0) ''03'' (?S 3 ?t2) = Ok (?S 4 ?t3)"
    by (simp add: eval)
  have h4: "process_heading ?E resume_config (Suc 0) ''04'' (?S 4 ?t3) = Ok (?S 5 ?t4)"
    by (simp add: eval)
  have h5: "process_heading ?E resume_config (Suc 0) ''05'' (?S 5 ?t4) = Ok (?S 6 ?t5)"
    by (simp add: eval)
  have h6: "process_heading ?E resume_config (Suc 0) ''06'' (?S 6 ?t5) = Exit 1 ?end"
    by (simp add: eval)
  have "heading_loop ?E resume_config None (Suc 0) (generateHeadings (Suc 0)) (?S 1 ?t0) = Exit 1 ?end"
    unfolding generateHeadings_eval
    by (simp only: heading_loop_Ok [OF h1] heading_loop_Ok [OF h2] heading_loop_Ok [OF h3]
        heading_loop_Ok [OF h4] heading_loop_Ok [OF h5] heading_loop_stop [OF h6] option.case)
  then have "chapter_loop ?E resume_config None [Suc 0] (?S 1 ?t0) = Exit 1 ?end"
    by (rule chapter_loop_stop) simp
  with a r show "main ?E resume_config [''introduction_{EDITION}e.pdf''] interrupted_world
     = Exit 1
        \<lparr>wld = \<lparr>cookieJar = [],
                 files = (''out/introduction_2022e.pdf'', ''%PDF'') # five_headings,
                 trace = [Request GET (mainPageUrl ''2022''), Request HEAD intro_url,
                          Request HEAD (grid_url ''01''), Request HEAD (grid_url ''02''),
                          Request HEAD (grid_url ''03''), Request HEAD (grid_url ''04''),
                          Request HEAD (grid_url ''05''), Request GET (grid_url ''06'')]\<rparr>,
         totalAttempted = 7, totalDownloaded = 0, totalFailed = 0, totalSkipped = 6\<rparr>"
    by (simp add: main_def resume_config_def sample_config_def)
qed

section \<open>Politeness pacing\<close>

text \<open>
  Claim C9, as stated, on the first two headings of chapter 1 with base delay 5000 ms,
  variation 5000 ms and \<open>Math.random()\<close> returning one half. Heading 01.01 exists locally and
  is unchanged: the turn pauses 3750 ms, sends the HEAD and skips. Heading 01.02 does not
  exist: the GET follows the HEAD of the turn before with no sleep in between.
\<close>

theorem no_sleep_after_head_counterexample:
  "heading_loop (sample_env (mirror_server (Some 8))) paced_config None 1 [''01'', ''02'']
     (start (world_with_0101 ''%PDF-1.4''))
   = Ok \<lparr>wld = \<lparr>cookieJar = [],
                  files = [(''out/0101_2022e.pdf'', ''%PDF-1.4''), (''out/0102_2022e.pdf'', ''%PDF-1.4'')],
                  trace = [Sleep 3750, Request HEAD (grid_url ''01''),
                           Request GET (grid_url ''02''), Sleep 7500]\<rparr>,
          totalAttempted = 2, totalDownloaded = 1, totalFailed = 0, totalSkipped = 1\<rparr>"
  by (simp add: step_defs checkFile.simps attemptDownload.simps start_def mirror_server_def
      paced_config_def world_with_0101_def sample_defs world_defs Let_def)

text \<open>
  Claim C9, amended. The pause \<open>getRandomDelay b v r\<close> is \<open>b\<close> plus the integer part of
  \<open>r v\<close>: for \<open>r\<close> in [0, 1) and a variation that is not negative it is never less than \<open>b\<close>,
  at most \<open>b + v\<close>, and below \<open>b + v\<close> when \<open>v\<close> is positive. With a positive base delay, every
  download that returns to the loop starts with the GET and is followed by a sleep of
  \<open>getRandomDelay delay delayVariation r\<close>; the change detector's HEAD is immediately
  preceded by a sleep computed the same way from half the base delay and half the variation.
  A turn that ends with the change detector's "unchanged" ends with a HEAD request: no
  sleep follows it.
\<close>

theorem pacing:
  "(0 \<le> r \<and> r < 1 \<and> 0 \<le> v \<longrightarrow>
      b \<le> getRandomDelay b v r \<and> getRandomDelay b v r \<le> b + v
      \<and> (0 < v \<longrightarrow> getRandomDelay b v r < b + v))
   \<and> (0 < delay cfg \<and> \<not> dryRun cfg \<and> fetch_and_record E cfg url p st = Ok st' \<longrightarrow>
        (\<exists>evs t. trace (wld st') = trace (wld st) @ Request GET url # evs
             @ [Sleep (getRandomDelay (real_of_int (delay cfg)) (real_of_int (delayVariation cfg))
                        (random E t))]))
   \<and> (0 < delay cfg \<and> checkExisting cfg \<and> \<not> skipExisting cfg \<and> \<not> dryRun cfg
        \<and> existsSync (files (wld st)) p \<longrightarrow>
        (\<exists>evs. trace (wld (decided (should_fetch E cfg url p st)))
             = trace (wld st)
               @ [Sleep (getRandomDelay (real_of_int (delay cfg) / 2) (real_of_int (delayVariation cfg) / 2)
                          (random E (now (wld st)))),
                  Request HEAD url] @ evs
           \<and> (\<forall>e \<in> set evs. \<exists>u'. e = Request HEAD u')))
   \<and> (should_fetch E cfg url p st = Skip st'' \<and> \<not> skipExisting cfg \<longrightarrow>
        (\<exists>evs u'. trace (wld st'') = trace (wld st) @ evs @ [Request HEAD u']))"
proof (intro conjI impI)
  have nr: "\<not> (5::nat) \<le> 0" by simp
  {
    assume "0 \<le> r \<and> r < 1 \<and> 0 \<le> v"
    then show "b \<le> getRandomDelay b v r" and "getRandomDelay b v r \<le> b + v"
      by (simp_all add: getRandomDelay_bounds)
  }
  {
    assume "0 \<le> r \<and> r < 1 \<and> 0 \<le> v" and "0 < v"
    then show "getRandomDelay b v r < b + v"
      by (simp add: getRandomDelay_bounds)
  }
  {
    assume a: "0 < delay cfg \<and> \<not> dryRun cfg \<and> fetch_and_record E cfg url p st = Ok st'"
    let ?d = "downloadFile E url p (retries cfg) 5 (wld st)"
    from attemptDownload_first [OF nr, of E p "retries cfg" 1 url "wld st"]
    obtain evs where tr: "trace (snd ?d) = trace (wld st) @ Request GET url # evs"
      by (auto simp: downloadFile_def)
    let ?sl = "Sleep (getRandomDelay (real_of_int (delay cfg)) (real_of_int (delayVariation cfg))
                        (random E (now (snd ?d))))"
    from a have "trace (wld st') = trace (snd ?d) @ [?sl]"
      by (cases ?d) (auto simp: fetch_and_record_def pace_def split: settled.splits if_splits)
    with tr have "trace (wld st') = trace (wld st) @ Request GET url # evs @ [?sl]" by simp
    then show "\<exists>evs t. trace (wld st') = trace (wld st) @ Request GET url # evs
             @ [Sleep (getRandomDelay (real_of_int (delay cfg)) (real_of_int (delayVariation cfg))
                        (random E t))]"
      by blast
  }
  {
    assume a: "0 < delay cfg \<and> checkExisting cfg \<and> \<not> skipExisting cfg \<and> \<not> dryRun cfg
        \<and> existsSync (files (wld st)) p"
    let ?stp = "head_pause E cfg st"
    let ?c = "checkFile E p 5 url 0 (wld ?stp)"
    from checkFile_first [OF nr, of E p url "wld ?stp"]
    obtain evs where tr: "trace (snd ?c) = trace (wld ?stp) @ Request HEAD url # evs"
      and hd: "\<forall>e \<in> set evs. \<exists>u'. e = Request HEAD u'"
      by blast
    from a have "wld (decided (should_fetch E cfg url p st)) = snd ?c"
      by (cases ?c) (simp add: should_fetch_def checkFileChanged_def Let_def)
    with tr a have "trace (wld (decided (should_fetch E cfg url p st)))
             = trace (wld st)
               @ [Sleep (getRandomDelay (real_of_int (delay cfg) / 2) (real_of_int (delayVariation cfg) / 2)
                          (random E (now (wld st)))),
                  Request HEAD url] @ evs"
      by (simp add: head_pause_def)
    with hd show "\<exists>evs. trace (wld (decided (should_fetch E cfg url p st)))
             = trace (wld st)
               @ [Sleep (getRandomDelay (real_of_int (delay cfg) / 2) (real_of_int (delayVariation cfg) / 2)
                          (random E (now (wld st)))),
                  Request HEAD url] @ evs
           \<and> (\<forall>e \<in> set evs. \<exists>u'. e = Request HEAD u')"
      by blast
  }
  {
    assume a: "should_fetch E cfg url p st = Skip st'' \<and> \<not> skipExisting cfg"
    let ?stp = "head_pause E cfg st"
    let ?c = "checkFile E p 5 url 0 (wld ?stp)"
    from checkFile_first [OF nr, of E p url "wld ?stp"]
    obtain evs where tr: "trace (snd ?c) = trace (wld ?stp) @ Request HEAD url # evs"
      and hd: "\<forall>e \<in> set evs. \<exists>u'. e = Request HEAD u'"
      by blast
    from a have w: "wld st'' = snd ?c"
      by (cases ?c) (auto simp: should_fetch_def checkFileChanged_def Let_def split: if_splits)
    obtain pre where pre: "trace (wld ?stp) = trace (wld st) @ pre"
      by (cases "0 < delay cfg") (simp_all add: head_pause_def)
    let ?L = "Request HEAD url # evs"
    from hd have "\<exists>u'. last ?L = Request HEAD u'"
      by (cases evs rule: rev_cases) auto
    then obtain u' where "last ?L = Request HEAD u'" by blast
    then have "?L = butlast ?L @ [Request HEAD u']"
      by (metis append_butlast_last_id list.distinct(1))
    with tr pre w have "trace (wld st'') = trace (wld st) @ (pre @ butlast ?L) @ [Request HEAD u']"
      by (metis append.assoc)
    then show "\<exists>evs u'. trace (wld st'') = trace (wld st) @ evs @ [Request HEAD u']"
      by blast
  }
qed

theorem pacing_witness:
  "(5000::real) \<le> getRandomDelay 5000 5000 (1 / 2) \<and> getRandomDelay 5000 5000 (1 / 2) < 5000 + 5000
   \<and> (\<exists>evs t. trace (wld (pace (sample_env (mirror_server (Some 8))) paced_config
            \<lparr>wld = \<lparr>cookieJar = [], files = [(''out/0102_2022e.pdf'', ''%PDF-1.4'')],
                     trace = [Request GET (grid_url ''02'')]\<rparr>,
              totalAttempted = 0, totalDownloaded = 1, totalFailed = 0, totalSkipped = 0\<rparr>))
          = trace (wld (start empty_world)) @ Request GET (grid_url ''02'') # evs
              @ [Sleep (getRandomDelay 5000 5000 (random (sample_env (mirror_server (Some 8))) t))])
   \<and> (\<exists>evs. trace (wld (decided (should_fetch (sample_env (mirror_server (Some 8))) paced_config
                  (grid_url ''01'') ''out/0101_2022e.pdf'' (start (world_with_0101 ''%PDF-1.4'')))))
          = [Sleep 3750, Request HEAD (grid_url ''01'')] @ evs)
   \<and> (\<exists>evs u'. [Sleep 3750, Request HEAD (grid_url ''01'')] = evs @ [Request HEAD u'])"
proof -
  let ?E = "sample_env (mirror_server (Some 8))"
  let ?w = "world_with_0101 ''%PDF-1.4''"
  let ?u1 = "grid_url ''01''"
  let ?u2 = "grid_url ''02''"
  let ?p1 = "''out/0101_2022e.pdf''"
  let ?p2 = "''out/0102_2022e.pdf''"
  let ?st2 = "\<lparr>wld = \<lparr>cookieJar = [], files = [(?p2, ''%PDF-1.4'')], trace = [Request GET ?u2]\<rparr>,
              totalAttempted = 0, totalDownloaded = 1, totalFailed = 0, totalSkipped = 0\<rparr>"
  let ?sk = "\<lparr>wld = \<lparr>cookieJar = [], files = [(?p1, ''%PDF-1.4'')],
                      trace = [Sleep 3750, Request HEAD ?u1]\<rparr>,
             totalAttempted = 0, totalDownloaded = 0, totalFailed = 0, totalSkipped = 1\<rparr>"
  note eval = step_defs checkFile.simps attemptDownload.simps start_def mirror_server_def
    paced_config_def world_with_0101_def sample_defs world_defs Let_def
  have h1: "(0::real) \<le> 1 / 2 \<and> (1::real) / 2 < 1 \<and> (0::real) \<le> 5000" by simp
  from pacing [where r = "1 / 2" and v = 5000 and b = 5000, THEN conjunct1, THEN mp, OF h1]
  have c1: "(5000::real) \<le> getRandomDelay 5000 5000 (1 / 2)"
    and c1': "getRandomDelay 5000 5000 (1 / 2) < 5000 + (5000::real)"
    by simp_all
  have f: "fetch_and_record ?E paced_config ?u2 ?p2 (start empty_world) = Ok (pace ?E paced_config ?st2)"
    by (simp add: fetch_and_record_def downloadFile_def attemptDownload.simps start_def mirror_server_def
        paced_config_def sample_defs world_defs)
  have h2: "0 < delay paced_config \<and> \<not> dryRun paced_config
      \<and> fetch_and_record ?E paced_config ?u2 ?p2 (start empty_world) = Ok (pace ?E paced_config ?st2)"
    using f by (simp add: paced_config_def sample_config_def)
  from pacing [where cfg = paced_config and E = ?E and url = ?u2 and p = ?p2 and st = "start empty_world"
        and st' = "pace ?E paced_config ?st2",
      THEN conjunct2, THEN conjunct1, THEN mp, OF h2]
  have c2: "\<exists>evs t. trace (wld (pace ?E paced_config ?st2))
          = trace (wld (start empty_world)) @ Request GET ?u2 # evs
              @ [Sleep (getRandomDelay 5000 5000 (random ?E t))]"
    by (simp add: paced_config_def sample_config_def)
  have h3: "0 < delay paced_config \<and> checkExisting paced_config \<and> \<not> skipExisting paced_config
      \<and> \<not> dryRun paced_config \<and> existsSync (files (wld (start ?w))) ?p1"
    by (simp add: paced_config_def sample_config_def start_def world_with_0101_def existsSync_def)
  from pacing [where cfg = paced_config and E = ?E and url = ?u1 and p = ?p1 and st = "start ?w",
      THEN conjunct2, THEN conjunct2, THEN conjunct1, THEN mp, OF h3]
  obtain evs where "trace (wld (decided (should_fetch ?E paced_config ?u1 ?p1 (start ?w))))
          = trace (wld (start ?w))
            @ [Sleep (getRandomDelay (real_of_int (delay paced_config) / 2)
                        (real_of_int (delayVariation paced_config) / 2) (random ?E (now (wld (start ?w))))),
               Request HEAD ?u1] @ evs"
    by blast
  then have c3: "\<exists>evs. trace (wld (decided (should_fetch ?E paced_config ?u1 ?p1 (start ?w))))
          = [Sleep 3750, Request HEAD ?u1] @ evs"
    by (simp add: paced_config_def sample_config_def start_def world_with_0101_def sample_env_def
        getRandomDelay_def)
  have sf: "should_fetch ?E paced_config ?u1 ?p1 (start ?w) = Skip ?sk"
    by (simp add: eval)
  then have h4: "should_fetch ?E paced_config ?u1 ?p1 (start ?w) = Skip ?sk \<and> \<not> skipExisting paced_config"
    by (simp add: paced_config_def sample_config_def)
  from pacing [where cfg = paced_config and E = ?E and url = ?u1 and p = ?p1 and st = "start ?w"
        and st'' = ?sk,
      THEN conjunct2, THEN conjunct2, THEN conjunct2, THEN mp, OF h4]
  have c4: "\<exists>evs u'. [Sleep 3750, Request HEAD ?u1] = evs @ [Request HEAD u']"
    by (simp add: start_def world_with_0101_def)
  from c1 c1' c2 c3 c4 show ?thesis by (intro conjI)
qed


end
